theory Spec2Isabelle
  imports Complex_Main "HOL-Library.Sublist" "HOL-Library.AList" "HOL-Library.Char_ord"
    "HOL-Library.List_Lexorder"
begin

section \<open>Video action retrieval with a 3D-convolutional classifier\<close>

text \<open>
  A shallow embedding of \<^verbatim>\<open>training/Conv3D/conv3d_retreival.py\<close>: the frame sampler,
  the dataset builder with its pickle snapshot, the training driver and the retrieval
  evaluation loop. Python exceptions are values of \<open>error\<close>; a function that can raise
  returns \<open>error + 'a\<close> with \<open>Inl\<close> the exception.
\<close>

datatype error =
    ZeroDivisionError
  | TypeError
  | IndexError
  | KeyError
  | ValueError
  | FileNotFoundError
  | FileExistsError

subsection \<open>Frames and video captures\<close>

text \<open>
  A decoded frame is an image array of shape \<open>(rows, cols, chans)\<close>; \<open>shot\<close> names the
  picture it shows, so that a frame can be followed through resizing. \<^verbatim>\<open>cv2.resize(frame, (w, h))\<close>
  gives the same picture with \<open>w\<close> columns and \<open>h\<close> rows and leaves the channels alone.
\<close>

record frame =
  rows :: nat
  cols :: nat
  chans :: nat
  shot :: nat

definition cv2_resize :: "frame \<Rightarrow> nat \<times> nat \<Rightarrow> frame" where
  "cv2_resize f dsize = f\<lparr>cols := fst dsize, rows := snd dsize\<rparr>"

text \<open>
  What \<^verbatim>\<open>cv2.VideoCapture(video_path)\<close> gives the sampler: whether the file opened,
  the frame count the container reports (\<^verbatim>\<open>int(cap.get(cv2.CAP_PROP_FRAME_COUNT))\<close>),
  and the frames that successive \<^verbatim>\<open>cap.read()\<close> calls deliver before the first
  \<^verbatim>\<open>isRead == False\<close>.
\<close>

record capture =
  isOpened :: bool
  frame_count :: int
  stream :: "frame list"

subsection \<open>DataHandler\<close>

record data_handler =
  n_frames :: nat
  operating_resolution :: "nat \<times> nat"
  test_split :: real
  videos_path :: string

definition DataHandler_init :: "string \<Rightarrow> real \<Rightarrow> data_handler" where
  "DataHandler_init path test_size =
     \<lparr>n_frames = 16, operating_resolution = (224, 224), test_split = test_size,
      videos_path = path\<rparr>"

text \<open>
  \<^verbatim>\<open>int(frame_total/self.n_frames)\<close>: Python 3's true division of two integers, then
  truncation towards zero. The frame total was itself read from a float, so the quotient
  by 16 is exact and the truncation is that of the rational quotient.
\<close>

definition int_truediv :: "int \<Rightarrow> nat \<Rightarrow> error + int" where
  "int_truediv a b =
     (if b = 0 then Inl ZeroDivisionError
      else Inr (sgn a * (\<bar>a\<bar> div int b)))"

text \<open>The divisor of line 56, \<^verbatim>\<open>int(frame_total/self.n_frames) - 5\<close>: the sampling stride.\<close>

definition stride :: "data_handler \<Rightarrow> int \<Rightarrow> error + int" where
  "stride h frame_total =
     (case int_truediv frame_total (n_frames h) of
        Inl e \<Rightarrow> Inl e
      | Inr q \<Rightarrow> Inr (q - 5))"

text \<open>
  Python's \<^verbatim>\<open>a % b\<close> on integers raises on \<open>b = 0\<close> and otherwise takes the sign of
  the divisor, as \<open>mod\<close> on \<open>int\<close> does.
\<close>

definition py_mod :: "int \<Rightarrow> int \<Rightarrow> error + int" where
  "py_mod a b = (if b = 0 then Inl ZeroDivisionError else Inr (a mod b))"

text \<open>
  The \<^verbatim>\<open>while cap.isOpened()\<close> loop of \<open>sample_frames\<close>, entered with the capture open:
  the last argument is what is left of the stream, \<open>[]\<close> being the read that fails.
\<close>

fun sample_loop ::
  "data_handler \<Rightarrow> int \<Rightarrow> int \<Rightarrow> frame list \<Rightarrow> frame list \<Rightarrow> error + frame list" where
  "sample_loop h frame_total read_count frames_list [] = Inr frames_list"
| "sample_loop h frame_total read_count frames_list (frame # rest) =
     (case stride h frame_total of
        Inl e \<Rightarrow> Inl e
      | Inr d \<Rightarrow>
          (case py_mod read_count d of
             Inl e \<Rightarrow> Inl e
           | Inr r \<Rightarrow>
               (let frames_list' =
                      (if r = 0
                       then frames_list @ [cv2_resize frame (operating_resolution h)]
                       else frames_list)
                in if length frames_list' = n_frames h then Inr frames_list'
                   else sample_loop h frame_total (read_count + 1) frames_list' rest)))"

definition sample_frames :: "data_handler \<Rightarrow> capture \<Rightarrow> error + frame list" where
  "sample_frames h cap =
     (case (if isOpened cap then sample_loop h (frame_count cap) 1 [] (stream cap)
            else Inr [])
      of Inl e \<Rightarrow> Inl e
       | Inr frames_list \<Rightarrow> Inr (take (n_frames h) frames_list))"

definition extract_video_features :: "data_handler \<Rightarrow> capture \<Rightarrow> error + frame list" where
  "extract_video_features h video = sample_frames h video"

text \<open>
  The double that the literal \<^verbatim>\<open>0.05\<close> denotes, and the handler that \<^verbatim>\<open>DataHandler()\<close>
  builds from the default arguments.
\<close>

definition double_0_05 :: real where
  "double_0_05 = 3602879701896397 / 72057594037927936"

definition default_handler :: data_handler where
  "default_handler =
     DataHandler_init ''/mnt/E2F262F2F262C9FD/PROJECTS/media_retrieval/Datasets/KTH/train/''
       double_0_05"

text \<open>
  The source frames that the loop keeps when it is never cut short: those whose read
  count, starting from \<open>rc\<close>, is divisible by \<open>d\<close>.
\<close>

fun picked :: "int \<Rightarrow> int \<Rightarrow> 'a list \<Rightarrow> 'a list" where
  "picked d rc [] = []"
| "picked d rc (x # xs) =
     (if rc mod d = 0 then x # picked d (rc + 1) xs else picked d (rc + 1) xs)"

text \<open>A well-formed clip of \<open>n\<close> colour frames of 160 by 120 pixels, for concrete runs.\<close>

definition clip :: "nat \<Rightarrow> capture" where
  "clip n = \<lparr>isOpened = True, frame_count = int n,
     stream = map (\<lambda>i. \<lparr>rows = 120, cols = 160, chans = 3, shot = i\<rparr>) [0..<n]\<rparr>"

subsection \<open>The file system and the dataset builder\<close>

text \<open>
  What the builder sees of the file system. A directory holds named entries, each a
  subdirectory or a plain file, in the order the operating system lists them;
  \<^verbatim>\<open>os.listdir\<close> returns the names of all of them and raises on a path that is no
  directory. \<open>glob\<close> is the result of \<^verbatim>\<open>glob.glob\<close> on a pattern and
  \<open>VideoCapture\<close> the capture that \<^verbatim>\<open>cv2.VideoCapture\<close> opens on a path.
\<close>

datatype kind = Directory | RegularFile

record filesystem =
  entries :: "string \<rightharpoonup> (string \<times> kind) list"
  glob :: "string \<Rightarrow> string list"
  VideoCapture :: "string \<Rightarrow> capture"

definition os_listdir :: "filesystem \<Rightarrow> string \<Rightarrow> error + string list" where
  "os_listdir fs path =
     (case entries fs path of
        None \<Rightarrow> Inl FileNotFoundError
      | Some es \<Rightarrow> Inr (map fst es))"

text \<open>The names of the immediate subdirectories of a directory.\<close>

definition subdirectories :: "filesystem \<Rightarrow> string \<Rightarrow> string list" where
  "subdirectories fs path =
     (case entries fs path of
        None \<Rightarrow> []
      | Some es \<Rightarrow> map fst (filter (\<lambda>e. snd e = Directory) es))"

text \<open>\<^verbatim>\<open>os.path.join(a, b)\<close> on POSIX paths.\<close>

definition os_path_join :: "string \<Rightarrow> string \<Rightarrow> string" where
  "os_path_join a b =
     (if b \<noteq> [] \<and> hd b = CHR ''/'' then b
      else if a = [] \<or> last a = CHR ''/'' then a @ b
      else a @ ''/'' @ b)"

text \<open>
  \<^verbatim>\<open>dict(pairs)\<close>: a later pair with a key already present replaces the value and
  keeps the key's place; \<^verbatim>\<open>d[k]\<close> raises KeyError on a missing key.
\<close>

definition py_dict :: "('k \<times> 'v) list \<Rightarrow> ('k \<times> 'v) list" where
  "py_dict pairs = foldl (\<lambda>d (k, v). AList.update k v d) [] pairs"

definition dict_getitem :: "('k \<times> 'v) list \<Rightarrow> 'k \<Rightarrow> error + 'v" where
  "dict_getitem d k = (case map_of d k of None \<Rightarrow> Inl KeyError | Some v \<Rightarrow> Inr v)"

text \<open>The inner loop of \<open>prepare_training_data\<close>, over the sorted files of one folder.\<close>

fun video_loop ::
  "data_handler \<Rightarrow> filesystem \<Rightarrow> (string \<times> nat) list \<Rightarrow> string \<Rightarrow> string list \<Rightarrow>
   frame list list \<times> nat list \<times> string list \<Rightarrow>
   error + frame list list \<times> nat list \<times> string list" where
  "video_loop h fs classes folder [] acc = Inr acc"
| "video_loop h fs classes folder (video_file # rest) (frame_features, labels, videos_list) =
     (case extract_video_features h (VideoCapture fs video_file) of
        Inl e \<Rightarrow> Inl e
      | Inr features \<Rightarrow>
          (case dict_getitem classes folder of
             Inl e \<Rightarrow> Inl e
           | Inr label \<Rightarrow>
               video_loop h fs classes folder rest
                 (frame_features @ [features], labels @ [label],
                  videos_list @ [video_file])))"

text \<open>The outer loop, over the sorted folders.\<close>

fun folder_loop ::
  "data_handler \<Rightarrow> filesystem \<Rightarrow> (string \<times> nat) list \<Rightarrow> string list \<Rightarrow>
   frame list list \<times> nat list \<times> string list \<Rightarrow>
   error + frame list list \<times> nat list \<times> string list" where
  "folder_loop h fs classes [] acc = Inr acc"
| "folder_loop h fs classes (folder # rest) acc =
     (let folder_path = os_path_join (videos_path h) folder;
          video_files = sort (glob fs (os_path_join folder_path ''*''))
      in case video_loop h fs classes folder video_files acc of
           Inl e \<Rightarrow> Inl e
         | Inr acc' \<Rightarrow> folder_loop h fs classes rest acc')"

definition prepare_training_data ::
  "data_handler \<Rightarrow> filesystem \<Rightarrow> string \<Rightarrow>
   error + frame list list \<times> nat list \<times> string list \<times> (string \<times> nat) list" where
  "prepare_training_data h fs path =
     (case os_listdir fs path of
        Inl e \<Rightarrow> Inl e
      | Inr names \<Rightarrow>
          (let folders = sort names;
               classes = py_dict (zip folders [0..<length folders])
           in case folder_loop h fs classes folders ([], [], []) of
                Inl e \<Rightarrow> Inl e
              | Inr (frame_features, labels, videos_list) \<Rightarrow>
                  Inr (frame_features, labels, videos_list, classes)))"

subsection \<open>The train/test split\<close>

text \<open>
  \<^verbatim>\<open>train_test_split(X, y, test_size = t, random_state = seed)\<close> is scikit-learn's, not
  this repository's; it is modelled by its documented policy. For a fraction \<open>t\<close>
  strictly between 0 and 1 the test part has \<open>ceil (t * n)\<close> samples, the product being
  the float product, and the train part has the rest; an empty train part is refused;
  and the samples are those at the first \<open>n_test\<close> and the next \<open>n_train\<close> indices of the
  permutation that the generator seeded with \<open>seed\<close> draws for \<open>n\<close>. Two things are
  not computed here and are parameters: \<open>rng_permutation seed n\<close>, that permutation, and
  \<open>float_product t n\<close>, the double that \<^verbatim>\<open>t * n\<close> evaluates to.
\<close>

record library =
  rng_permutation :: "nat \<Rightarrow> nat \<Rightarrow> nat list"
  float_product :: "real \<Rightarrow> nat \<Rightarrow> real"

definition safe_indexing :: "'a list \<Rightarrow> nat list \<Rightarrow> error + 'a list" where
  "safe_indexing xs indices =
     (if list_all (\<lambda>i. i < length xs) indices then Inr (map (nth xs) indices)
      else Inl IndexError)"

definition train_test_split ::
  "library \<Rightarrow> 'a list \<Rightarrow> 'b list \<Rightarrow> real \<Rightarrow> nat \<Rightarrow>
   error + 'a list \<times> 'a list \<times> 'b list \<times> 'b list" where
  "train_test_split lib X y test_size random_state =
     (let n_samples = length X in
      if length y \<noteq> n_samples then Inl ValueError
      else if test_size \<le> 0 \<or> 1 \<le> test_size then Inl ValueError
      else
        let n_test = nat \<lceil>float_product lib test_size n_samples\<rceil>;
            n_train = n_samples - n_test
        in if n_train = 0 then Inl ValueError
           else
             let perm = rng_permutation lib random_state n_samples;
                 ind_test = take n_test perm;
                 ind_train = take n_train (drop n_test perm)
             in case (safe_indexing X ind_train, safe_indexing X ind_test,
                      safe_indexing y ind_train, safe_indexing y ind_test) of
                  (Inr X_train, Inr X_test, Inr y_train, Inr y_test) \<Rightarrow>
                    Inr (X_train, X_test, y_train, y_test)
                | _ \<Rightarrow> Inl IndexError)"

subsection \<open>The snapshot\<close>

text \<open>
  The values that go into the pickle, and the pickled dictionary itself, keyed by field
  name. The disk maps a path to the dictionary pickled there: that \<^verbatim>\<open>pkl.load\<close> gives
  back the object that \<^verbatim>\<open>pkl.dump\<close> stored is the contract of the pickle library and
  is built into \<open>pkl_dump\<close> and \<open>pkl_load\<close>. Opening a file that is not there raises.
\<close>

datatype pyobj =
    Features "frame list list"
  | Labels "nat list"
  | Videos "string list"
  | Classes "(string \<times> nat) list"

type_synonym snapshot = "string \<rightharpoonup> pyobj"

type_synonym disk = "string \<rightharpoonup> snapshot"

definition pkl_dump :: "snapshot \<Rightarrow> string \<Rightarrow> disk \<Rightarrow> disk" where
  "pkl_dump obj path dsk = dsk(path \<mapsto> obj)"

definition pkl_load :: "string \<Rightarrow> disk \<Rightarrow> error + snapshot" where
  "pkl_load path dsk = (case dsk path of None \<Rightarrow> Inl FileNotFoundError | Some obj \<Rightarrow> Inr obj)"

definition snapshot_getitem :: "snapshot \<Rightarrow> string \<Rightarrow> error + pyobj" where
  "snapshot_getitem d k = (case d k of None \<Rightarrow> Inl KeyError | Some v \<Rightarrow> Inr v)"

text \<open>The name under which \<open>get_training_data\<close> saves the snapshot (lines 98 and 99).\<close>

definition snapshot_name :: "string option \<Rightarrow> string" where
  "snapshot_name save_data_as =
     (let name = (case save_data_as of None \<Rightarrow> ''data.pkl'' | Some s \<Rightarrow> s)
      in if \<not> sublist ''.pkl'' name then name @ ''.pkl'' else name)"

text \<open>
  \<open>get_training_data\<close> returns \<open>(X_train, X_test, y_train, y_test, video_list, classes)\<close>
  and, having perhaps written a snapshot, the disk.
\<close>

definition get_training_data ::
  "data_handler \<Rightarrow> filesystem \<Rightarrow> library \<Rightarrow> disk \<Rightarrow>
   string option \<Rightarrow> string option \<Rightarrow>
   error + (pyobj \<times> pyobj \<times> pyobj \<times> pyobj \<times> pyobj \<times> pyobj) \<times> disk" where
  "get_training_data h fs lib dsk save_data_as data_pickle =
     (case data_pickle of
        None \<Rightarrow>
          (case prepare_training_data h fs (videos_path h) of
             Inl e \<Rightarrow> Inl e
           | Inr (X, y, video_list, classes) \<Rightarrow>
               (case train_test_split lib X y (test_split h) 42 of
                  Inl e \<Rightarrow> Inl e
                | Inr (X_train, X_test, y_train, y_test) \<Rightarrow>
                    Inr ((Features X_train, Features X_test, Labels y_train, Labels y_test,
                          Videos video_list, Classes classes),
                         pkl_dump
                           [''X_train'' \<mapsto> Features X_train, ''y_train'' \<mapsto> Labels y_train,
                            ''X_test'' \<mapsto> Features X_test, ''y_test'' \<mapsto> Labels y_test,
                            ''classes'' \<mapsto> Classes classes,
                            ''videos'' \<mapsto> Videos video_list]
                           (snapshot_name save_data_as) dsk)))
      | Some path \<Rightarrow>
          (case pkl_load path dsk of
             Inl e \<Rightarrow> Inl e
           | Inr data_dict \<Rightarrow>
               (case (snapshot_getitem data_dict ''X_train'',
                      snapshot_getitem data_dict ''y_train'',
                      snapshot_getitem data_dict ''X_test'',
                      snapshot_getitem data_dict ''y_test'',
                      snapshot_getitem data_dict ''videos'',
                      snapshot_getitem data_dict ''classes'') of
                  (Inr X_train, Inr y_train, Inr X_test, Inr y_test, Inr video_list,
                   Inr classes) \<Rightarrow>
                    Inr ((X_train, X_test, y_train, y_test, video_list, classes), dsk)
                | _ \<Rightarrow> Inl KeyError)))"

subsection \<open>Trainer\<close>

text \<open>
  Modelled from the spec: \<^verbatim>\<open>c3d_model.py\<close> is not among the sources. The spec has the
  training driver build a 3D-convolutional classifier configured for a resolution, a
  frame count, a channel count and a class count; a network is represented by that
  configuration, and its output layer has \<open>nb_classes\<close> units.
\<close>

record network =
  resolution :: "nat \<times> nat"
  frames :: nat
  channels :: nat
  nb_classes :: nat

definition c3d_model :: "nat \<times> nat \<Rightarrow> nat \<Rightarrow> nat \<Rightarrow> nat \<Rightarrow> network" where
  "c3d_model res n c k = \<lparr>resolution = res, frames = n, channels = c, nb_classes = k\<rparr>"

definition py_len :: "pyobj \<Rightarrow> nat" where
  "py_len obj =
     (case obj of
        Features xs \<Rightarrow> length xs
      | Labels xs \<Rightarrow> length xs
      | Videos xs \<Rightarrow> length xs
      | Classes xs \<Rightarrow> length xs)"

record trainer =
  handler :: data_handler
  training_version :: string
  data :: "pyobj \<times> pyobj \<times> pyobj \<times> pyobj \<times> pyobj \<times> pyobj"
  n_classes :: nat
  epochs :: nat
  batch_size :: nat
  validation_split :: real

text \<open>
  \<^verbatim>\<open>str(datetime.now())[:16].replace("-", "_").replace(" ", "_")\<close>, from the string
  \<open>now\<close> that \<^verbatim>\<open>str(datetime.now())\<close> gives.
\<close>

definition version_of :: "string \<Rightarrow> string" where
  "version_of now =
     map (\<lambda>c. if c = CHR ''-'' \<or> c = CHR '' '' then CHR ''_'' else c) (take 16 now)"

text \<open>
  \<open>Trainer.__init__\<close>. \<open>dirs\<close> are the directories that exist where the run starts:
  \<^verbatim>\<open>os.mkdir\<close> raises when the run's directory is already there.
\<close>

definition Trainer_init ::
  "string \<Rightarrow> filesystem \<Rightarrow> library \<Rightarrow> disk \<Rightarrow> string set \<Rightarrow>
   string option \<Rightarrow> nat \<times> nat \<Rightarrow> error + trainer \<times> disk \<times> string set" where
  "Trainer_init now fs lib dsk dirs data_to_use res =
     (let h = default_handler\<lparr>operating_resolution := res\<rparr>;
          version = version_of now
      in if version \<in> dirs then Inl FileExistsError
         else
           let save_data_as =
                 (case data_to_use of
                    None \<Rightarrow> Some (os_path_join version ''data.pkl'')
                  | Some _ \<Rightarrow> None)
           in case get_training_data h fs lib dsk save_data_as data_to_use of
                Inl e \<Rightarrow> Inl e
              | Inr ((Xtr, Xte, ytr, yte, videos, classes), dsk') \<Rightarrow>
                  Inr (\<lparr>handler = h, training_version = version,
                        data = (Xtr, Xte, ytr, yte, videos, classes),
                        n_classes = py_len classes,
                        epochs = 50, batch_size = 32, validation_split = double_0_05\<rparr>,
                       dsk', insert version dirs))"

text \<open>
  The model that \<open>Trainer.train\<close> fits (lines 143 and 144): the saved model at
  \<open>pretrained_model\<close> when one is named, else a fresh network.
\<close>

definition train_model :: "(string \<Rightarrow> network) \<Rightarrow> trainer \<Rightarrow> string option \<Rightarrow> network" where
  "train_model load_model t pretrained_model =
     (case pretrained_model of
        Some path \<Rightarrow> load_model path
      | None \<Rightarrow> c3d_model (operating_resolution (handler t)) 16 3 3)"

text \<open>
  The fit loop and its checkpoint callback are Keras's, not this repository's; they are
  modelled by their documented behaviour. An epoch ends with the values below. The logs
  that the callbacks receive hold the loss and the validation loss, and the accuracy and
  the validation accuracy only when the model was compiled with the accuracy metric.
\<close>

record epoch_result =
  loss :: real
  accuracy :: real
  val_loss :: real
  val_accuracy :: real

definition epoch_logs :: "string list \<Rightarrow> epoch_result \<Rightarrow> (string \<rightharpoonup> real)" where
  "epoch_logs metrics r =
     (if ''accuracy'' \<in> set metrics
      then [''loss'' \<mapsto> loss r, ''accuracy'' \<mapsto> accuracy r,
            ''val_loss'' \<mapsto> val_loss r, ''val_accuracy'' \<mapsto> val_accuracy r]
      else [''loss'' \<mapsto> loss r, ''val_loss'' \<mapsto> val_loss r])"

text \<open>
  \<^verbatim>\<open>ModelCheckpoint(filepath, monitor = m, save_best_only = True, mode = 'max')\<close>. The
  best value so far starts at minus infinity, here \<open>None\<close>. At the end of an epoch the
  callback reads the monitored value from the logs; when the logs do not have it, it
  warns and saves nothing; otherwise it saves when the value is greater than the best.
  The formatting of the file name from the logs is not modelled: a template that names a
  value the logs lack makes the run fail at the end of its first epoch, with no file
  written either.
\<close>

record ModelCheckpoint =
  filepath :: string
  monitor :: string

definition monitor_op :: "real \<Rightarrow> real option \<Rightarrow> bool" where
  "monitor_op current best = (case best of None \<Rightarrow> True | Some b \<Rightarrow> b < current)"

text \<open>
  The epochs of \<open>fit\<close> with one such callback. The result lists the checkpoints written,
  each with the 1-based epoch number and the monitored value that its file name encodes.
\<close>

fun fit_loop ::
  "ModelCheckpoint \<Rightarrow> string list \<Rightarrow> real option \<Rightarrow> nat \<Rightarrow> epoch_result list \<Rightarrow>
   (string \<times> nat \<times> real) list" where
  "fit_loop cb metrics best epoch [] = []"
| "fit_loop cb metrics best epoch (r # rs) =
     (case epoch_logs metrics r (monitor cb) of
        None \<Rightarrow> fit_loop cb metrics best (epoch + 1) rs
      | Some current \<Rightarrow>
          if monitor_op current best
          then (filepath cb, epoch + 1, current) #
               fit_loop cb metrics (Some current) (epoch + 1) rs
          else fit_loop cb metrics best (epoch + 1) rs)"

text \<open>
  \<open>Trainer.train\<close> from line 146 on: \<open>outcome i\<close> is how epoch \<open>i\<close> of the run ends. The
  model is compiled with an optimizer and a loss and no metric.
\<close>

definition train :: "trainer \<Rightarrow> string option \<Rightarrow> (nat \<Rightarrow> epoch_result) \<Rightarrow> (string \<times> nat \<times> real) list" where
  "train t model_path outcome =
     (let name = (case model_path of
                    None \<Rightarrow> ''C3D_E{epoch:02d}_VA{val_accuracy:.2f}.hdf5''
                  | Some p \<Rightarrow> p);
          callback = \<lparr>filepath = os_path_join (training_version t) name,
                      monitor = ''val_accuracy''\<rparr>
      in fit_loop callback [] None 0 (map outcome [0..<epochs t]))"

subsection \<open>Tester\<close>

text \<open>
  NumPy arrays of the two shapes the evaluation loop meets: a 0-dimensional array (or
  scalar) and a 1-dimensional one. \<^verbatim>\<open>np.argwhere(flags)\<close> is a column of the indices where
  the flag holds; \<^verbatim>\<open>np.squeeze\<close> drops the axes of length one, so a column of one index
  becomes 0-dimensional and any other column, the empty one too, 1-dimensional.
\<close>

datatype 'a ndarray = Array0 'a | Array1 "'a list"

definition np_argwhere :: "bool list \<Rightarrow> nat list" where
  "np_argwhere flags = filter (\<lambda>i. flags ! i) [0..<length flags]"

definition np_squeeze :: "'a list \<Rightarrow> 'a ndarray" where
  "np_squeeze xs = (case xs of [x] \<Rightarrow> Array0 x | _ \<Rightarrow> Array1 xs)"

text \<open>
  \<^verbatim>\<open>y[indexes]\<close> with an integer array: a 0-dimensional index selects one element, a
  1-dimensional one an array of elements. \<^verbatim>\<open>len\<close> raises TypeError on what is
  0-dimensional.
\<close>

definition np_getitem :: "'a list \<Rightarrow> nat ndarray \<Rightarrow> error + 'a ndarray" where
  "np_getitem y indexes =
     (case indexes of
        Array0 i \<Rightarrow> if i < length y then Inr (Array0 (y ! i)) else Inl IndexError
      | Array1 js \<Rightarrow>
          if list_all (\<lambda>j. j < length y) js then Inr (Array1 (map (nth y) js))
          else Inl IndexError)"

definition getitem :: "'a list \<Rightarrow> nat \<Rightarrow> error + 'a" where
  "getitem y i = (if i < length y then Inr (y ! i) else Inl IndexError)"

definition np_len :: "'a ndarray \<Rightarrow> error + nat" where
  "np_len a = (case a of Array0 _ \<Rightarrow> Inl TypeError | Array1 xs \<Rightarrow> Inr (length xs))"

text \<open>A Python float that is a number or nan; \<^verbatim>\<open>np.mean\<close> of no number is nan.\<close>

datatype pyfloat = Float real | NaN




text \<open>
  \<^verbatim>\<open>accuracy_score(y_true, y_pred)\<close> is scikit-learn's: on two label arrays of one
  length it is the fraction of positions where they agree, and it raises on arrays of
  different lengths and on 0-dimensional input. What it does on two empty arrays is not
  the same in all releases (nan, the mean of nothing, or ValueError), so that result is
  the parameter \<open>on_empty\<close>.
\<close>

definition accuracy_score ::
  "error + pyfloat \<Rightarrow> 'a ndarray \<Rightarrow> 'a ndarray \<Rightarrow> error + pyfloat" where
  "accuracy_score on_empty y_true y_pred =
     (case (y_true, y_pred) of
        (Array1 ts, Array1 ps) \<Rightarrow>
          if length ts \<noteq> length ps then Inl ValueError
          else if ts = [] then on_empty
          else Inr (Float (real (length (filter (\<lambda>(t, p). t = p) (zip ts ps))) /
                           real (length ts)))
      | _ \<Rightarrow> Inl TypeError)"

text \<open>
  The tester's training labels and threshold. The similarity matrix is an input of the
  loop: \<^verbatim>\<open>cosine_similarity\<close> is scikit-learn's floating-point code.
\<close>

record tester =
  y_train :: "nat list"
  distance_threshold :: real

text \<open>The indexes that a row of the similarity matrix retrieves (line 172, before the squeeze).\<close>

definition retrieved :: "tester \<Rightarrow> real list \<Rightarrow> nat list" where
  "retrieved ts row = np_argwhere (map (\<lambda>x. distance_threshold ts < x) row)"

text \<open>The body of the \<^verbatim>\<open>try\<close> block for one query: its accuracy, or the exception raised.\<close>

definition query_accuracy ::
  "error + pyfloat \<Rightarrow> tester \<Rightarrow> nat \<Rightarrow> real list \<Rightarrow> error + pyfloat" where
  "query_accuracy on_empty ts idx row =
     (let retrieved_indexes = np_squeeze (retrieved ts row)
      in case np_getitem (y_train ts) retrieved_indexes of
           Inl e \<Rightarrow> Inl e
         | Inr retrieved_labels \<Rightarrow>
             (case getitem (y_train ts) idx of
                Inl e \<Rightarrow> Inl e
              | Inr own \<Rightarrow>
                  (case np_len retrieved_labels of
                     Inl e \<Rightarrow> Inl e
                   | Inr n \<Rightarrow>
                       accuracy_score on_empty (np_squeeze (replicate n own))
                         retrieved_labels)))"



subsection \<open>Auxiliary notions for the statements\<close>

text \<open>
  A capture that opened, whose reported frame count is the number of frames it delivers
  and is at least 96, and whose frames have three channels.
\<close>

definition usable :: "capture \<Rightarrow> bool" where
  "usable cap \<longleftrightarrow>
     isOpened cap \<and> frame_count cap = int (length (stream cap)) \<and> 96 \<le> frame_count cap \<and>
     list_all (\<lambda>f. chans f = 3) (stream cap)"

text \<open>A sample of \<open>n_frames\<close> frames of the handler's resolution and three channels.\<close>

definition well_shaped :: "data_handler \<Rightarrow> frame list \<Rightarrow> bool" where
  "well_shaped h sample \<longleftrightarrow>
     length sample = n_frames h \<and>
     list_all (\<lambda>f. cols f = fst (operating_resolution h) \<and>
                    rows f = snd (operating_resolution h) \<and> chans f = 3) sample"

text \<open>The pattern that \<open>prepare_training_data\<close> globs for a folder (lines 82 and 83).\<close>

definition pattern :: "data_handler \<Rightarrow> string \<Rightarrow> string" where
  "pattern h folder = os_path_join (os_path_join (videos_path h) folder) ''*''"

text \<open>The invariant of the two loops of \<open>prepare_training_data\<close>.\<close>

definition well_labelled :: "nat \<Rightarrow> frame list list \<times> nat list \<times> string list \<Rightarrow> bool" where
  "well_labelled n acc =
     (case acc of (frame_features, labels, videos_list) \<Rightarrow>
        list_all (\<lambda>l. l < n) labels \<and> length labels = length frame_features \<and>
        length videos_list = length frame_features)"

text \<open>The retrieved examples that carry the label of the query.\<close>

definition same_label :: "tester \<Rightarrow> nat \<Rightarrow> real list \<Rightarrow> nat list" where
  "same_label ts idx row =
     filter (\<lambda>j. y_train ts ! j = y_train ts ! idx) (retrieved ts row)"



text \<open>The frames per sample of a feature array, and the snapshot with six given fields.\<close>

definition sample_lengths :: "pyobj \<Rightarrow> nat list" where
  "sample_lengths obj = (case obj of Features xs \<Rightarrow> map length xs | _ \<Rightarrow> [])"

definition six_fields ::
  "pyobj \<Rightarrow> pyobj \<Rightarrow> pyobj \<Rightarrow> pyobj \<Rightarrow> pyobj \<Rightarrow> pyobj \<Rightarrow> snapshot" where
  "six_fields Xtr Xte ytr yte vids cls =
     [''X_train'' \<mapsto> Xtr, ''y_train'' \<mapsto> ytr, ''X_test'' \<mapsto> Xte,
      ''y_test'' \<mapsto> yte, ''classes'' \<mapsto> cls, ''videos'' \<mapsto> vids]"

subsection \<open>Concrete inputs\<close>

text \<open>
  A dataset root with three class folders and \<open>k\<close> clips of 96 frames in each, the same
  with ten clips of 16 frames in each folder, and a root that also holds a plain file.
\<close>

definition numbered :: "nat \<Rightarrow> string \<Rightarrow> string list" where
  "numbered k pat =
     map (\<lambda>i. butlast pat @ ''person'' @ [char_of (48 + i)] @ ''.avi'') [0..<k]"

definition example_fs :: "nat \<Rightarrow> filesystem" where
  "example_fs k =
     \<lparr>entries = [videos_path default_handler \<mapsto>
                  [(''walking'', Directory), (''boxing'', Directory),
                   (''running'', Directory)]],
      glob = numbered k,
      VideoCapture = (\<lambda>_. clip 96)\<rparr>"

definition short_fs :: filesystem where
  "short_fs = (example_fs 10)\<lparr>VideoCapture := (\<lambda>_. clip 16)\<rparr>"

definition cluttered_fs :: filesystem where
  "cluttered_fs =
     \<lparr>entries = [videos_path default_handler \<mapsto>
                  [(''walking'', Directory), (''README.txt'', RegularFile)]],
      glob = (\<lambda>_. []),
      VideoCapture = (\<lambda>_. clip 96)\<rparr>"

text \<open>
  A library for concrete runs: a permutation for every seed, and the product rounded to
  the nearest multiple of \<open>1 / 2 ^ 52\<close>, which is how the doubles from 1 to 2 are spaced.
\<close>

definition example_lib :: library where
  "example_lib =
     \<lparr>rng_permutation = (\<lambda>seed n. rotate seed [0..<n]),
      float_product = (\<lambda>t n. real_of_int (round (t * real n * 2 ^ 52)) / 2 ^ 52)\<rparr>"

text \<open>A snapshot of the six KTH action classes, at the path \<open>Trainer\<close> loads by default.\<close>

definition kth_snapshot :: snapshot where
  "kth_snapshot =
     [''X_train'' \<mapsto> Features [], ''y_train'' \<mapsto> Labels [],
      ''X_test'' \<mapsto> Features [], ''y_test'' \<mapsto> Labels [],
      ''classes'' \<mapsto> Classes [(''boxing'', 0), (''handclapping'', 1), (''handwaving'', 2),
                                  (''jogging'', 3), (''running'', 4), (''walking'', 5)],
      ''videos'' \<mapsto> Videos []]"

definition kth_pickle :: string where
  "kth_pickle =
     ''/mnt/E2F262F2F262C9FD/PROJECTS/media_retrieval/training/Conv3D/KTH_data.pkl''"

text \<open>
  Three embedded examples, the first two alike and the third unlike them, with their
  similarity matrix; and the similarity matrix that \<^verbatim>\<open>cosine_similarity\<close> returns for
  the feature vectors \<open>[[0, 0], [1, 0]]\<close>, of which the first is the zero vector.
\<close>

definition example_tester :: tester where
  "example_tester = \<lparr>y_train = [0, 1, 1], distance_threshold = 9 / 10\<rparr>"

definition example_distances :: "real list list" where
  "example_distances =
     [[1, 1, 0],
      [1, 1, 0],
      [0, 0, 1]]"

definition zero_tester :: tester where
  "zero_tester = \<lparr>y_train = [0, 1], distance_threshold = 9 / 10\<rparr>"

definition zero_distances :: "real list list" where
  "zero_distances =
     [[0, 0],
      [0, 1]]"

section \<open>Properties of the frame sampler\<close>

lemma sample_loop_length:
  "sample_loop h t rc acc xs = Inr fl \<Longrightarrow> length acc < n_frames h \<Longrightarrow> length fl \<le> n_frames h"
proof (induction xs arbitrary: rc acc)
  case Nil
  then show ?case by simp
next
  case (Cons x xs)
  then show ?case
    by (auto simp: Let_def split: sum.splits if_splits)
qed

lemma sample_loop_picked:
  "stride h t = Inr d \<Longrightarrow> d \<noteq> 0 \<Longrightarrow> length acc < n_frames h \<Longrightarrow>
   sample_loop h t rc acc xs =
     Inr (take (n_frames h)
            (acc @ map (\<lambda>f. cv2_resize f (operating_resolution h)) (picked d rc xs)))"
proof (induction xs arbitrary: rc acc)
  case Nil
  then show ?case by simp
next
  case (Cons x xs)
  let ?r = "\<lambda>f. cv2_resize f (operating_resolution h)"
  show ?case
  proof (cases "rc mod d = 0")
    case False
    then show ?thesis
      using Cons.prems Cons.IH [of acc "rc + 1"] by (simp add: py_mod_def)
  next
    case True
    show ?thesis
    proof (cases "Suc (length acc) = n_frames h")
      case full: True
      then have "n_frames h - length acc = Suc 0" by simp
      then show ?thesis
        using True Cons.prems full by (simp add: py_mod_def)
    next
      case notfull: False
      then have lt: "length (acc @ [?r x]) < n_frames h"
        using Cons.prems(3) by simp
      show ?thesis
        using True Cons.prems notfull Cons.IH [OF Cons.prems(1,2) lt, of "rc + 1"]
        by (simp add: py_mod_def)
    qed
  qed
qed

lemma picked_filter:
  "picked d rc xs = map (nth xs) (filter (\<lambda>j. (rc + int j) mod d = 0) [0..<length xs])"
proof (induction xs arbitrary: rc)
  case Nil
  then show ?case by simp
next
  case (Cons x xs)
  have "[0..<length (x # xs)] = 0 # map Suc [0..<length xs]"
    by (simp add: upt_conv_Cons map_Suc_upt del: upt_Suc)
  then show ?case
    by (simp add: Cons.IH filter_map comp_def add.commute add.left_commute del: upt_Suc)
qed

lemma picked_dvd:
  assumes "d \<noteq> 0"
  shows "picked d 1 xs = map (nth xs) (filter (\<lambda>j. nat \<bar>d\<bar> dvd Suc j) [0..<length xs])"
proof -
  have "\<And>j. ((1 + int j) mod d = 0) = (nat \<bar>d\<bar> dvd Suc j)"
    using assms by auto
  then show ?thesis by (simp add: picked_filter)
qed

lemma multiples_upto:
  "0 < s \<Longrightarrow>
   filter (\<lambda>j. (1 + int j) mod int s = 0) [0..<n] = map (\<lambda>k. k * s - 1) [1..<n div s + 1]"
proof (induction n)
  case 0
  then show ?case by simp
next
  case (Suc n)
  have eq: "\<And>j. ((1 + int j) mod int s = 0) = (Suc j mod s = 0)"
    by (metis of_nat_Suc of_nat_mod of_nat_eq_0_iff)
  show ?case
  proof (cases "Suc n mod s = 0")
    case True
    then have d: "Suc n div s = n div s + 1"
      using div_Suc by presburger
    have e: "(n div s + 1) * s = Suc n"
      using True d by (metis mod_0_imp_dvd dvd_div_mult_self)
    show ?thesis using Suc True d e by (simp add: eq)
  next
    case False
    then have "Suc n div s = n div s"
      using div_Suc by presburger
    then show ?thesis using Suc False by (simp add: eq)
  qed
qed

lemma stride_16:
  "n_frames h = 16 \<Longrightarrow> stride h t = Inr (sgn t * (\<bar>t\<bar> div 16) - 5)"
  by (simp add: stride_def int_truediv_def)

lemma default_handler_simps:
  "n_frames default_handler = 16"
  "operating_resolution default_handler = (224, 224)"
  "test_split default_handler = double_0_05"
  by (simp_all add: default_handler_def DataHandler_init_def)

lemma clip_simps:
  "isOpened (clip n)"
  "frame_count (clip n) = int n"
  "length (stream (clip n)) = n"
  "list_all (\<lambda>f. chans f = 3) (stream (clip n))"
  by (simp_all add: clip_def list_all_iff)

lemma sample_frames_evenly:
  assumes n: "n_frames h = 16"
    and op: "isOpened cap"
    and cnt: "frame_count cap = int (length (stream cap))"
    and long: "96 \<le> frame_count cap"
    and rgb: "\<forall>f \<in> set (stream cap). chans f = 3"
  shows "\<exists>s fs. stride h (frame_count cap) = Inr (int s) \<and> 0 < s \<and>
           16 * s \<le> length (stream cap) \<and>
           sample_frames h cap = Inr fs \<and>
           fs = map (\<lambda>k. cv2_resize (stream cap ! (k * s - 1)) (operating_resolution h))
                  [1..<17] \<and>
           length fs = 16 \<and>
           (\<forall>f \<in> set fs. cols f = fst (operating_resolution h) \<and>
                 rows f = snd (operating_resolution h) \<and> chans f = 3)"
proof -
  let ?T = "frame_count cap" and ?xs = "stream cap"
  let ?r = "\<lambda>f. cv2_resize f (operating_resolution h)"
  define s where "s = nat (?T div 16 - 5)"
  have spos: "0 < s" using long unfolding s_def by simp
  have st: "stride h ?T = Inr (int s)"
    using stride_16 [OF n, of ?T] long unfolding s_def by (simp add: sgn_if)
  have fit: "16 * s \<le> length ?xs"
    using cnt long unfolding s_def by simp
  have sixteen: "16 \<le> length ?xs div s"
    using fit spos less_eq_div_iff_mult_less_eq by blast
  have inr: "k * s - 1 < length ?xs" if "k \<in> set [1..<17]" for k
  proof -
    have "k * s \<le> 16 * s" and "0 < k * s"
      using that spos by simp_all
    then show ?thesis using fit by linarith
  qed
  have pk: "picked (int s) 1 ?xs = map (\<lambda>k. ?xs ! (k * s - 1)) [1..<length ?xs div s + 1]"
    using spos by (simp add: picked_filter multiples_upto comp_def)
  have "take 16 [1..<length ?xs div s + 1] = [1..<17]"
    using sixteen by (simp del: upt_Suc)
  then have tk: "take 16 (map ?r (picked (int s) 1 ?xs)) =
      map (\<lambda>k. ?r (?xs ! (k * s - 1))) [1..<17]"
    by (simp add: pk take_map comp_def)
  have loop: "sample_loop h ?T 1 [] ?xs = Inr (take 16 (map ?r (picked (int s) 1 ?xs)))"
    using sample_loop_picked [OF st, of "[]" 1 ?xs] spos n by simp
  have res: "sample_frames h cap = Inr (map (\<lambda>k. ?r (?xs ! (k * s - 1))) [1..<17])"
    using op n by (simp add: sample_frames_def loop tk)
  have shp: "\<forall>f \<in> set (map (\<lambda>k. ?r (?xs ! (k * s - 1))) [1..<17]).
      cols f = fst (operating_resolution h) \<and> rows f = snd (operating_resolution h) \<and>
      chans f = 3"
    using inr rgb by (auto simp: cv2_resize_def simp del: upt_Suc)
  show ?thesis
    using st spos fit res shp
    by (intro exI [of _ s] exI [of _ "map (\<lambda>k. ?r (?xs ! (k * s - 1))) [1..<17]"]) simp
qed

lemma sample_frames_usable:
  assumes n: "n_frames h = 16" and u: "usable cap"
  shows "\<exists>fs. sample_frames h cap = Inr fs \<and> well_shaped h fs"
proof -
  from u have op: "isOpened cap" and cnt: "frame_count cap = int (length (stream cap))"
    and long: "96 \<le> frame_count cap" and rgb: "\<forall>f \<in> set (stream cap). chans f = 3"
    by (simp_all add: usable_def list_all_iff)
  from sample_frames_evenly [OF n op cnt long rgb] show ?thesis
    using n by (auto simp: well_shaped_def list_all_iff)
qed

text \<open>
  C2. For a video that opens, whose reported frame count is the number of frames it
  delivers and is at least \<open>6 * 16 = 96\<close>, and whose decoded frames have three channels,
  \<open>sample_frames\<close> returns exactly 16 frames, each with the configured number of columns
  and rows and three channels. They are the frames at the 1-based positions
  \<open>s, 2 * s, ..., 16 * s\<close> of the video, for the positive stride
  \<open>s = floor (total / 16) - 5\<close>, hence in temporal order.
\<close>

theorem sample_frames_long_video:
  assumes n: "n_frames h = 16"
    and op: "isOpened cap"
    and cnt: "frame_count cap = int (length (stream cap))"
    and long: "96 \<le> frame_count cap"
    and rgb: "\<forall>f \<in> set (stream cap). chans f = 3"
  shows "\<exists>s fs. stride h (frame_count cap) = Inr (int s) \<and> 0 < s \<and>
           16 * s \<le> length (stream cap) \<and>
           sample_frames h cap = Inr fs \<and>
           fs = map (\<lambda>k. cv2_resize (stream cap ! (k * s - 1)) (operating_resolution h))
                  [1..<17] \<and>
           length fs = 16 \<and>
           (\<forall>f \<in> set fs. cols f = fst (operating_resolution h) \<and>
                 rows f = snd (operating_resolution h) \<and> chans f = 3)"
  using assms by (rule sample_frames_evenly)

theorem sample_frames_long_video_witness:
  "n_frames default_handler = 16 \<and> isOpened (clip 96) \<and>
   frame_count (clip 96) = int (length (stream (clip 96))) \<and> 96 \<le> frame_count (clip 96) \<and>
   list_all (\<lambda>f. chans f = 3) (stream (clip 96)) \<and>
   map_sum id length (sample_frames default_handler (clip 96)) = Inr 16"
proof -
  have rgb: "\<forall>f \<in> set (stream (clip 96)). chans f = 3"
    using clip_simps(4) [of 96] by (simp add: list_all_iff)
  have "\<exists>fs. sample_frames default_handler (clip 96) = Inr fs \<and> length fs = 16"
    using sample_frames_long_video [of default_handler "clip 96", OF _ _ _ _ rgb]
    by (auto simp: default_handler_simps clip_simps)
  then show ?thesis
    by (auto simp: default_handler_simps clip_simps)
qed

text \<open>
  C3. With a stride that is zero or negative the sampler does not always fail. When the
  stride is zero (a frame total from 80 to 95) and at least one frame can be read, the
  modulo raises ZeroDivisionError. When the stride is negative (a frame total below 80)
  nothing is raised: Python's modulo by a negative divisor is zero exactly at the
  multiples of its absolute value, and the sampler returns the first frames, up to 16,
  whose 1-based position is such a multiple. A capture that is not open or delivers no
  frame gives the empty sequence.
\<close>

theorem sample_frames_nonpositive_stride:
  assumes n: "n_frames h = 16"
    and st: "stride h (frame_count cap) = Inr d"
    and neg: "d \<le> 0"
  shows "sample_frames h cap =
    (if \<not> isOpened cap \<or> stream cap = [] then Inr []
     else if d = 0 then Inl ZeroDivisionError
     else Inr (take 16 (map (\<lambda>j. cv2_resize (stream cap ! j) (operating_resolution h))
                 (filter (\<lambda>j. nat \<bar>d\<bar> dvd Suc j) [0..<length (stream cap)]))))"
proof (cases "\<not> isOpened cap \<or> stream cap = []")
  case True
  then show ?thesis by (auto simp: sample_frames_def)
next
  case False
  then obtain x xs where xs: "stream cap = x # xs" and op: "isOpened cap"
    by (cases "stream cap") auto
  show ?thesis
  proof (cases "d = 0")
    case True
    then show ?thesis
      using False op st xs by (simp add: sample_frames_def py_mod_def)
  next
    case d: False
    have "sample_loop h (frame_count cap) 1 [] (stream cap) =
        Inr (take 16 (map (\<lambda>f. cv2_resize f (operating_resolution h))
                        (picked d 1 (stream cap))))"
      using sample_loop_picked [OF st d, of "[]" 1 "stream cap"] n by simp
    then show ?thesis
      using False op d n by (simp add: sample_frames_def picked_dvd comp_def)
  qed
qed

theorem sample_frames_nonpositive_stride_witness:
  "n_frames default_handler = 16 \<and>
   stride default_handler (frame_count (clip 80)) = Inr 0 \<and>
   sample_frames default_handler (clip 80) = Inl ZeroDivisionError \<and>
   stride default_handler (frame_count (clip 16)) = Inr (- 4) \<and>
   map_sum id (map shot) (sample_frames default_handler (clip 16)) = Inr [3, 7, 11, 15]"
proof -
  have s80: "stride default_handler (frame_count (clip 80)) = Inr 0"
    by (simp add: stride_16 default_handler_simps clip_simps)
  have s16: "stride default_handler (frame_count (clip 16)) = Inr (- 4)"
    by (simp add: stride_16 default_handler_simps clip_simps)
  have ne: "stream (clip 80) \<noteq> []" "stream (clip 16) \<noteq> []"
    using clip_simps(3) [of 80] clip_simps(3) [of 16] by auto
  have a: "sample_frames default_handler (clip 80) = Inl ZeroDivisionError"
    using sample_frames_nonpositive_stride [OF default_handler_simps(1) s80] ne
    by (simp add: clip_simps)
  have b: "sample_frames default_handler (clip 16) =
      Inr (take 16 (map (\<lambda>j. cv2_resize (stream (clip 16) ! j) (operating_resolution default_handler))
                 (filter (\<lambda>j. nat \<bar>- 4\<bar> dvd Suc j) [0..<length (stream (clip 16))])))"
    using sample_frames_nonpositive_stride [OF default_handler_simps(1) s16] ne
    by (simp add: clip_simps)
  have c: "map_sum id (map shot) (sample_frames default_handler (clip 16)) = Inr [3, 7, 11, 15]"
    unfolding b by code_simp
  show ?thesis
    using a c s80 s16 by (simp add: default_handler_simps)
qed

theorem sample_frames_negative_stride_counterexample:
  "stride default_handler (frame_count (clip 64)) = Inr (- 1) \<and>
   map_sum id length (sample_frames default_handler (clip 64)) = Inr 16"
  by code_simp

text \<open>
  C10. Whenever \<open>sample_frames\<close> returns, it returns at most 16 frames; and when the
  capture was open, the list the reading loop leaves already has at most 16 frames, so
  the final truncation to the first 16 changes nothing.
\<close>

theorem sample_frames_at_most_N:
  assumes n: "n_frames h = 16" and ret: "sample_frames h cap = Inr fs"
  shows "length fs \<le> 16 \<and>
    (isOpened cap \<longrightarrow>
       (\<exists>fl. sample_loop h (frame_count cap) 1 [] (stream cap) = Inr fl \<and>
             length fl \<le> 16 \<and> fs = fl))"
proof -
  have a: "length fs \<le> 16"
    using ret n by (auto simp: sample_frames_def split: sum.splits)
  have b: "\<exists>fl. sample_loop h (frame_count cap) 1 [] (stream cap) = Inr fl \<and>
         length fl \<le> 16 \<and> fs = fl" if op: "isOpened cap"
  proof -
    from ret op obtain fl where fl: "sample_loop h (frame_count cap) 1 [] (stream cap) = Inr fl"
      and fs: "fs = take 16 fl"
      using n by (auto simp: sample_frames_def split: sum.splits)
    have "length fl \<le> 16"
      using sample_loop_length [OF fl] n by simp
    then show ?thesis using fl fs by simp
  qed
  show ?thesis using a b by blast
qed

theorem sample_frames_at_most_N_witness:
  "n_frames default_handler = 16 \<and> isOpened (clip 200) \<and>
   map_sum id (map shot) (sample_frames default_handler (clip 200)) =
     Inr [6, 13, 20, 27, 34, 41, 48, 55, 62, 69, 76, 83, 90, 97, 104, 111] \<and>
   map_sum id (map shot) (sample_loop default_handler (frame_count (clip 200)) 1 []
       (stream (clip 200))) =
     Inr [6, 13, 20, 27, 34, 41, 48, 55, 62, 69, 76, 83, 90, 97, 104, 111]"
proof -
  obtain fs where fs: "sample_frames default_handler (clip 200) = Inr fs"
    and sh: "map shot fs = [6, 13, 20, 27, 34, 41, 48, 55, 62, 69, 76, 83, 90, 97, 104, 111]"
  proof
    show "sample_frames default_handler (clip 200) =
        Inr (map (\<lambda>i. \<lparr>rows = 224, cols = 224, chans = 3, shot = i\<rparr>)
          [6, 13, 20, 27, 34, 41, 48, 55, 62, 69, 76, 83, 90, 97, 104, 111])"
      by code_simp
    show "map shot (map (\<lambda>i. \<lparr>rows = 224, cols = 224, chans = 3, shot = i\<rparr>)
          [6, 13, 20, 27, 34, 41, 48, 55, 62, 69, 76, 83, 90, 97, 104, 111]) =
        [6, 13, 20, 27, 34, 41, 48, 55, 62, 69, 76, 83, 90, 97, 104, 111]"
      by simp
  qed
  from sample_frames_at_most_N [OF default_handler_simps(1) fs]
  have "sample_loop default_handler (frame_count (clip 200)) 1 [] (stream (clip 200)) = Inr fs"
    by (auto simp: clip_simps)
  then show ?thesis
    using fs sh by (simp add: default_handler_simps clip_simps)
qed

section \<open>Properties of the dataset builder\<close>

lemma update_fresh: "k \<notin> fst ` set al \<Longrightarrow> AList.update k v al = al @ [(k, v)]"
  by (induction al) auto

lemma foldl_update_distinct:
  "distinct (map fst (acc @ ps)) \<Longrightarrow>
   foldl (\<lambda>d (k, v). AList.update k v d) acc ps = acc @ ps"
proof (induction ps arbitrary: acc)
  case Nil
  then show ?case by simp
next
  case (Cons p ps)
  obtain k v where p: "p = (k, v)" by (cases p)
  have fresh: "k \<notin> fst ` set acc"
    using Cons.prems p by auto
  have "distinct (map fst ((acc @ [(k, v)]) @ ps))"
    using Cons.prems p by simp
  from Cons.IH [OF this] show ?case
    using p fresh by (simp add: update_fresh)
qed

lemma py_dict_distinct: "distinct (map fst ps) \<Longrightarrow> py_dict ps = ps"
  using foldl_update_distinct [of "[]" ps] by (simp add: py_dict_def)

lemma dict_getitem_mem: "dict_getitem d k = Inr v \<Longrightarrow> (k, v) \<in> set d"
  by (auto simp: dict_getitem_def split: option.splits dest: map_of_SomeD)

lemma dict_getitem_zip:
  assumes "folder \<in> set folders"
  shows "\<exists>label. dict_getitem (zip folders [0..<length folders]) folder = Inr label"
proof -
  have "map_of (zip folders [0..<length folders]) folder \<noteq> None"
    using assms map_of_zip_is_None [of folders "[0..<length folders]" folder] by simp
  then show ?thesis
    by (cases "map_of (zip folders [0..<length folders]) folder") (auto simp: dict_getitem_def)
qed

lemma video_loop_well_labelled:
  "video_loop h fs classes folder files acc = Inr acc' \<Longrightarrow>
   list_all (\<lambda>p. snd p < n) classes \<Longrightarrow> well_labelled n acc \<Longrightarrow> well_labelled n acc'"
proof (induction files arbitrary: acc)
  case Nil
  then show ?case by simp
next
  case (Cons f files)
  obtain ff ls vs where acc: "acc = (ff, ls, vs)" by (cases acc)
  from Cons.prems(1) acc obtain feats label where
    lab: "dict_getitem classes folder = Inr label" and
    rest: "video_loop h fs classes folder files (ff @ [feats], ls @ [label], vs @ [f]) = Inr acc'"
    by (auto split: sum.splits)
  have "label < n"
    using dict_getitem_mem [OF lab] Cons.prems(2) by (auto simp: list_all_iff)
  then have "well_labelled n (ff @ [feats], ls @ [label], vs @ [f])"
    using Cons.prems(3) acc by (simp add: well_labelled_def)
  from Cons.IH [OF rest Cons.prems(2) this] show ?case .
qed

lemma folder_loop_well_labelled:
  "folder_loop h fs classes folders acc = Inr acc' \<Longrightarrow>
   list_all (\<lambda>p. snd p < n) classes \<Longrightarrow> well_labelled n acc \<Longrightarrow> well_labelled n acc'"
proof (induction folders arbitrary: acc)
  case Nil
  then show ?case by simp
next
  case (Cons folder folders)
  from Cons.prems(1) obtain acc1 where
    one: "video_loop h fs classes folder
            (sort (glob fs (os_path_join (os_path_join (videos_path h) folder) ''*''))) acc
          = Inr acc1"
    and rest: "folder_loop h fs classes folders acc1 = Inr acc'"
    by (auto simp: Let_def split: sum.splits)
  from video_loop_well_labelled [OF one Cons.prems(2,3)]
  have "well_labelled n acc1" .
  from Cons.IH [OF rest Cons.prems(2) this] show ?case .
qed

lemma prepare_training_data_lengths:
  assumes ret: "prepare_training_data h fs path = Inr (X, y, videos, classes)"
  shows "length y = length X"
proof -
  from ret obtain names where
    loop: "folder_loop h fs classes (sort names) ([], [], []) = Inr (X, y, videos)"
    by (auto simp: prepare_training_data_def Let_def split: sum.splits)
  have "list_all (\<lambda>p. snd p < Suc (Max (snd ` set classes))) classes"
    by (auto simp: list_all_iff less_Suc_eq_le)
  from folder_loop_well_labelled [OF loop this]
  show ?thesis by (simp add: well_labelled_def)
qed

lemma prepare_training_data_facts:
  assumes ent: "entries fs path = Some es"
    and dist: "distinct (map fst es)"
    and ret: "prepare_training_data h fs path = Inr (X, y, videos, classes)"
  shows "classes = zip (sort (map fst es)) [0..<length es] \<and>
         length classes = length es \<and>
         (list_all (\<lambda>e. snd e = Directory) es \<longrightarrow>
            length classes = length (subdirectories fs path)) \<and>
         (\<forall>l \<in> set y. l < length classes) \<and>
         length y = length X \<and> length videos = length X"
proof -
  let ?folders = "sort (map fst es)"
  let ?n = "length es"
  have d: "distinct (map fst (zip ?folders [0..<length ?folders]))"
    using dist by simp
  from ret ent have cl: "classes = py_dict (zip ?folders [0..<length ?folders])"
    and loop: "folder_loop h fs classes ?folders ([], [], []) = Inr (X, y, videos)"
    by (auto simp: prepare_training_data_def os_listdir_def Let_def split: sum.splits)
  have cz: "classes = zip ?folders [0..<?n]"
    using cl py_dict_distinct [OF d] by simp
  have len: "length classes = ?n"
    using cz by simp
  have bound: "list_all (\<lambda>p. snd p < ?n) classes"
    unfolding cz list_all_iff by (auto dest: set_zip_rightD)
  have "well_labelled ?n (X, y, videos)"
    using folder_loop_well_labelled [OF loop bound] by (simp add: well_labelled_def)
  then have lab: "\<forall>l \<in> set y. l < ?n" and ly: "length y = length X"
    and lv: "length videos = length X"
    by (simp_all add: well_labelled_def list_all_iff)
  have sub: "length classes = length (subdirectories fs path)"
    if "list_all (\<lambda>e. snd e = Directory) es"
    using that len ent by (simp add: subdirectories_def list_all_iff)
  show ?thesis
    using cz len lab ly lv sub by simp
qed

lemma example_fs_simps:
  "entries (example_fs k) (videos_path default_handler) =
     Some [(''walking'', Directory), (''boxing'', Directory), (''running'', Directory)]"
  "glob (example_fs k) = numbered k"
  "VideoCapture (example_fs k) f = clip 96"
  by (simp_all add: example_fs_def)

lemma usable_clip: "usable (clip 96)"
  by (simp add: usable_def clip_simps)

text \<open>
  C8. When the names that the root directory lists are distinct, a build that returns
  gives \<open>classes\<close> exactly one entry per entry of the root, plain files as well as
  subdirectories: the source lists the root with \<^verbatim>\<open>os.listdir\<close> and never asks what
  is a directory. The entry names in sorted order get the indices \<open>0, 1, ...\<close>, so there
  is one class per immediate subdirectory when the root holds subdirectories only; and
  every label of the dataset is below \<open>len(classes)\<close>.
\<close>

theorem prepare_training_data_classes:
  assumes ent: "entries fs path = Some es"
    and dist: "distinct (map fst es)"
    and ret: "prepare_training_data h fs path = Inr (X, y, videos, classes)"
  shows "classes = zip (sort (map fst es)) [0..<length es] \<and>
         length classes = length es \<and>
         (list_all (\<lambda>e. snd e = Directory) es \<longrightarrow>
            length classes = length (subdirectories fs path)) \<and>
         (\<forall>l \<in> set y. l < length classes) \<and>
         length y = length X \<and> length videos = length X"
  using assms by (rule prepare_training_data_facts)

theorem prepare_training_data_classes_witness:
  "\<exists>X y videos classes.
     prepare_training_data default_handler (example_fs 1) (videos_path default_handler) =
       Inr (X, y, videos, classes) \<and>
     classes = [(''boxing'', 0), (''running'', 1), (''walking'', 2)] \<and>
     y = [0, 1, 2] \<and>
     length classes = length (subdirectories (example_fs 1) (videos_path default_handler)) \<and>
     list_all (\<lambda>l. l < length classes) y"
proof -
  let ?es = "[(''walking'', Directory), (''boxing'', Directory), (''running'', Directory)]"
  have ev: "map_sum id (\<lambda>(X, y, v, c). y)
      (prepare_training_data default_handler (example_fs 1) (videos_path default_handler)) =
      Inr [0, 1, 2]"
    by code_simp
  then obtain X y videos classes where
    ret: "prepare_training_data default_handler (example_fs 1) (videos_path default_handler) =
       Inr (X, y, videos, classes)" and y: "y = [0, 1, 2]"
    by (cases "prepare_training_data default_handler (example_fs 1)
          (videos_path default_handler)") auto
  have srt: "sort (map fst ?es) = [''boxing'', ''running'', ''walking'']"
    by code_simp
  have dist: "distinct (map fst ?es)" by simp
  have dirs: "list_all (\<lambda>e. snd e = Directory) ?es" by simp
  from prepare_training_data_classes [OF example_fs_simps(1) dist ret] dirs
  have "classes = zip (sort (map fst ?es)) [0..<length ?es]"
    and "length classes = length (subdirectories (example_fs 1) (videos_path default_handler))"
    and "\<forall>l \<in> set y. l < length classes"
    by blast+
  then show ?thesis
    using ret y unfolding srt by (auto simp: list_all_iff upt_conv_Cons)
qed

theorem prepare_training_data_plain_file_counterexample:
  "length (subdirectories cluttered_fs (videos_path default_handler)) = 1 \<and>
   map_sum id (\<lambda>(X, y, v, c). c)
     (prepare_training_data default_handler cluttered_fs (videos_path default_handler)) =
     Inr [(''README.txt'', 0), (''walking'', 1)]"
  by code_simp

section \<open>Properties of the train/test split\<close>

lemma video_loop_usable:
  assumes n: "n_frames h = 16"
    and lab: "dict_getitem classes folder = Inr label"
    and ok: "\<forall>f \<in> set files. usable (VideoCapture fs f)"
  shows "\<exists>feats. video_loop h fs classes folder files (ff, ls, vs) =
           Inr (ff @ feats, ls @ replicate (length files) label, vs @ files) \<and>
         length feats = length files \<and> list_all (well_shaped h) feats"
  using ok
proof (induction files arbitrary: ff ls vs)
  case Nil
  then show ?case by simp
next
  case (Cons f files)
  from Cons.prems have "usable (VideoCapture fs f)" by simp
  from sample_frames_usable [OF n this] obtain s where
    s: "sample_frames h (VideoCapture fs f) = Inr s" and ws: "well_shaped h s" by blast
  from Cons.prems have "\<forall>f \<in> set files. usable (VideoCapture fs f)" by simp
  from Cons.IH [OF this, of "ff @ [s]" "ls @ [label]" "vs @ [f]"] obtain feats where
    r: "video_loop h fs classes folder files (ff @ [s], ls @ [label], vs @ [f]) =
          Inr ((ff @ [s]) @ feats, (ls @ [label]) @ replicate (length files) label, (vs @ [f]) @ files)"
    and l: "length feats = length files" and w: "list_all (well_shaped h) feats"
    by blast
  show ?case
    using r l w ws s lab
    by (intro exI [of _ "s # feats"]) (simp add: extract_video_features_def replicate_append_same)
qed

lemma folder_loop_usable:
  assumes n: "n_frames h = 16"
    and keys: "\<forall>folder \<in> set folders. \<exists>label. dict_getitem classes folder = Inr label"
    and cnt: "\<forall>folder \<in> set folders. length (glob fs (pattern h folder)) = k"
    and ok: "\<forall>folder \<in> set folders. \<forall>f \<in> set (glob fs (pattern h folder)). usable (VideoCapture fs f)"
  shows "\<exists>ff' ls' vs'. folder_loop h fs classes folders (ff, ls, vs) = Inr (ff @ ff', ls @ ls', vs @ vs') \<and>
         length ff' = k * length folders \<and> list_all (well_shaped h) ff'"
  using keys cnt ok
proof (induction folders arbitrary: ff ls vs)
  case Nil
  then show ?case by simp
next
  case (Cons folder folders)
  let ?files = "sort (glob fs (pattern h folder))"
  from Cons.prems(1) obtain label where lab: "dict_getitem classes folder = Inr label" by auto
  have okf: "\<forall>f \<in> set ?files. usable (VideoCapture fs f)"
    using Cons.prems(3) by simp
  have lenf: "length ?files = k" using Cons.prems(2) by simp
  from video_loop_usable [OF n lab okf, of ff ls vs] obtain feats where
    v: "video_loop h fs classes folder ?files (ff, ls, vs) =
          Inr (ff @ feats, ls @ replicate (length ?files) label, vs @ ?files)"
    and l: "length feats = length ?files" and w: "list_all (well_shaped h) feats"
    by blast
  have a: "\<forall>folder \<in> set folders. \<exists>label. dict_getitem classes folder = Inr label"
    and b: "\<forall>folder \<in> set folders. length (glob fs (pattern h folder)) = k"
    and c: "\<forall>folder \<in> set folders. \<forall>f \<in> set (glob fs (pattern h folder)). usable (VideoCapture fs f)"
    using Cons.prems by simp_all
  from Cons.IH [OF a b c, of "ff @ feats" "ls @ replicate (length ?files) label" "vs @ ?files"]
  obtain ff' ls' vs' where
    r: "folder_loop h fs classes folders (ff @ feats, ls @ replicate (length ?files) label, vs @ ?files)
         = Inr ((ff @ feats) @ ff', (ls @ replicate (length ?files) label) @ ls', (vs @ ?files) @ vs')"
    and l': "length ff' = k * length folders" and w': "list_all (well_shaped h) ff'"
    by blast
  show ?case
    using v r l l' w w' lenf
    by (intro exI [of _ "feats @ ff'"] exI [of _ "replicate (length ?files) label @ ls'"]
        exI [of _ "?files @ vs'"]) (simp add: pattern_def Let_def)
qed

lemma safe_indexing_ok:
  "\<forall>i \<in> set indices. i < length xs \<Longrightarrow> safe_indexing xs indices = Inr (map (nth xs) indices)"
  by (simp add: safe_indexing_def list_all_iff)

lemma permutation_facts:
  assumes "distinct p \<and> set p = {0..<n}"
  shows "length p = n" and "\<forall>i \<in> set p. i < n"
proof -
  have "card (set p) = length p"
    using assms distinct_card [of p] by blast
  then show "length p = n" using assms by simp
  show "\<forall>i \<in> set p. i < n" using assms by simp
qed

lemma train_test_split_ok:
  assumes len: "length y = length X"
    and frac: "0 < t" "t < 1"
    and ne: "nat \<lceil>float_product lib t (length X)\<rceil> < length X"
    and pl: "length (rng_permutation lib seed (length X)) = length X"
    and pb: "\<forall>i \<in> set (rng_permutation lib seed (length X)). i < length X"
  shows "train_test_split lib X y t seed =
     Inr (map (nth X) (drop (nat \<lceil>float_product lib t (length X)\<rceil>)
                          (rng_permutation lib seed (length X))),
          map (nth X) (take (nat \<lceil>float_product lib t (length X)\<rceil>)
                          (rng_permutation lib seed (length X))),
          map (nth y) (drop (nat \<lceil>float_product lib t (length X)\<rceil>)
                          (rng_permutation lib seed (length X))),
          map (nth y) (take (nat \<lceil>float_product lib t (length X)\<rceil>)
                          (rng_permutation lib seed (length X))))"
proof -
  let ?p = "rng_permutation lib seed (length X)"
  let ?nt = "nat \<lceil>float_product lib t (length X)\<rceil>"
  have whole: "take (length X - ?nt) (drop ?nt ?p) = drop ?nt ?p"
    using pl by simp
  have a: "\<forall>i \<in> set (take ?nt ?p). i < length X"
    using pb by (auto dest: in_set_takeD)
  have b: "\<forall>i \<in> set (drop ?nt ?p). i < length X"
    using pb by (auto dest: in_set_dropD)
  have a': "\<forall>i \<in> set (take ?nt ?p). i < length y"
    and b': "\<forall>i \<in> set (drop ?nt ?p). i < length y"
    using a b len by simp_all
  show ?thesis
    using len frac ne
    by (simp add: train_test_split_def Let_def whole safe_indexing_ok [OF a]
        safe_indexing_ok [OF b] safe_indexing_ok [OF a'] safe_indexing_ok [OF b'])
qed

lemma prepare_training_data_usable:
  assumes n: "n_frames h = 16"
    and ent: "entries fs (videos_path h) = Some es"
    and dist: "distinct (map fst es)"
    and cnt: "\<forall>folder \<in> set (map fst es). length (glob fs (pattern h folder)) = k"
    and ok: "\<forall>folder \<in> set (map fst es). \<forall>f \<in> set (glob fs (pattern h folder)).
               usable (VideoCapture fs f)"
  shows "\<exists>X y videos classes.
           prepare_training_data h fs (videos_path h) = Inr (X, y, videos, classes) \<and>
           length X = k * length es \<and> list_all (well_shaped h) X \<and> length classes = length es"
proof -
  let ?folders = "sort (map fst es)"
  let ?classes = "zip ?folders [0..<length ?folders]"
  have d: "distinct (map fst ?classes)" using dist by simp
  have cl: "py_dict ?classes = ?classes" by (rule py_dict_distinct [OF d])
  have keys: "\<forall>folder \<in> set ?folders. \<exists>label. dict_getitem ?classes folder = Inr label"
    using dict_getitem_zip [of _ ?folders] by blast
  have cnt': "\<forall>folder \<in> set ?folders. length (glob fs (pattern h folder)) = k"
    using cnt by simp
  have ok': "\<forall>folder \<in> set ?folders. \<forall>f \<in> set (glob fs (pattern h folder)).
               usable (VideoCapture fs f)"
    using ok by simp
  from folder_loop_usable [OF n keys cnt' ok', of "[]" "[]" "[]"]
  obtain ff ls vs where
    loop: "folder_loop h fs ?classes ?folders ([], [], []) = Inr (ff, ls, vs)"
    and l: "length ff = k * length ?folders" and w: "list_all (well_shaped h) ff"
    by auto
  have "prepare_training_data h fs (videos_path h) = Inr (ff, ls, vs, ?classes)"
    using ent loop cl by (simp add: prepare_training_data_def os_listdir_def Let_def)
  then show ?thesis
    using l w by (intro exI [of _ ff] exI [of _ ls] exI [of _ vs] exI [of _ ?classes]) simp
qed

lemma get_training_data_split:
  assumes perm: "distinct (rng_permutation lib 42 (length X)) \<and>
                 set (rng_permutation lib 42 (length X)) = {0..<length X}"
    and frac: "0 < test_split h" "test_split h < 1"
    and prep: "prepare_training_data h fs (videos_path h) = Inr (X, y, videos, classes)"
    and ne: "nat \<lceil>float_product lib (test_split h) (length X)\<rceil> < length X"
  shows "\<exists>X_train X_test y_train y_test dsk'.
      get_training_data h fs lib dsk save_data_as None =
        Inr ((Features X_train, Features X_test, Labels y_train, Labels y_test,
              Videos videos, Classes classes), dsk') \<and>
      length X_test = nat \<lceil>float_product lib (test_split h) (length X)\<rceil> \<and>
      length X_train = length X - length X_test \<and>
      length y_test = length X_test \<and> length y_train = length X_train \<and>
      X_test @ X_train = map (nth X) (rng_permutation lib 42 (length X)) \<and>
      y_test @ y_train = map (nth y) (rng_permutation lib 42 (length X))"
proof -
  let ?n = "length X"
  let ?p = "rng_permutation lib 42 ?n"
  let ?nt = "nat \<lceil>float_product lib (test_split h) ?n\<rceil>"
  have ly: "length y = ?n" by (rule prepare_training_data_lengths [OF prep])
  have pl: "length ?p = ?n" and pb: "\<forall>i \<in> set ?p. i < ?n"
    using permutation_facts [OF perm] by simp_all
  note split = train_test_split_ok [where lib = lib and seed = 42, OF ly frac ne pl pb]
  let ?itr = "drop ?nt ?p" and ?ite = "take ?nt ?p"
  have g: "get_training_data h fs lib dsk save_data_as None =
        Inr ((Features (map (nth X) ?itr), Features (map (nth X) ?ite),
              Labels (map (nth y) ?itr), Labels (map (nth y) ?ite),
              Videos videos, Classes classes),
             pkl_dump
               [''X_train'' \<mapsto> Features (map (nth X) ?itr),
                ''y_train'' \<mapsto> Labels (map (nth y) ?itr),
                ''X_test'' \<mapsto> Features (map (nth X) ?ite),
                ''y_test'' \<mapsto> Labels (map (nth y) ?ite),
                ''classes'' \<mapsto> Classes classes, ''videos'' \<mapsto> Videos videos]
               (snapshot_name save_data_as) dsk)"
    using prep split by (simp add: get_training_data_def)
  have lte: "length (map (nth X) ?ite) = ?nt"
    using pl ne by simp
  have ltr: "length (map (nth X) ?itr) = ?n - ?nt"
    using pl by simp
  have lyte: "length (map (nth y) ?ite) = ?nt"
    using pl ne by simp
  have lytr: "length (map (nth y) ?itr) = ?n - ?nt"
    using pl by simp
  have whole: "?ite @ ?itr = ?p" by simp
  show ?thesis
  proof (intro exI conjI)
    show "get_training_data h fs lib dsk save_data_as None =
        Inr ((Features (map (nth X) ?itr), Features (map (nth X) ?ite),
              Labels (map (nth y) ?itr), Labels (map (nth y) ?ite),
              Videos videos, Classes classes),
             pkl_dump
               [''X_train'' \<mapsto> Features (map (nth X) ?itr),
                ''y_train'' \<mapsto> Labels (map (nth y) ?itr),
                ''X_test'' \<mapsto> Features (map (nth X) ?ite),
                ''y_test'' \<mapsto> Labels (map (nth y) ?ite),
                ''classes'' \<mapsto> Classes classes, ''videos'' \<mapsto> Videos videos]
               (snapshot_name save_data_as) dsk)"
      by (rule g)
    show "length (map (nth X) ?ite) = ?nt" by (rule lte)
    show "length (map (nth X) ?itr) = ?n - length (map (nth X) ?ite)"
      unfolding lte by (rule ltr)
    show "length (map (nth y) ?ite) = length (map (nth X) ?ite)"
      unfolding lte by (rule lyte)
    show "length (map (nth y) ?itr) = length (map (nth X) ?itr)"
      unfolding ltr by (rule lytr)
    show "map (nth X) ?ite @ map (nth X) ?itr = map (nth X) ?p"
      unfolding map_append [symmetric] whole by (rule refl)
    show "map (nth y) ?ite @ map (nth y) ?itr = map (nth y) ?p"
      unfolding map_append [symmetric] whole by (rule refl)
  qed
qed

lemma example_lib_simps:
  "rng_permutation example_lib seed n = rotate seed [0..<n]"
  "float_product example_lib double_0_05 30 = 3 / 2"
proof -
  show "rng_permutation example_lib seed n = rotate seed [0..<n]"
    by (simp add: example_lib_def)
  show "float_product example_lib double_0_05 30 = 3 / 2"
    by code_simp
qed

lemma double_0_05_range: "0 < double_0_05" "double_0_05 < 1"
  by (simp_all add: double_0_05_def)

text \<open>
  C7. With a seed-42 permutation of the sample positions and a test fraction strictly
  between 0 and 1: whenever the builder returns a dataset of \<open>n\<close> samples that leaves a
  train part, the test part has as many samples as the ceiling of the float product of
  the fraction and \<open>n\<close>, the train part has the rest, and the test part followed by the
  train part is the dataset rearranged by that permutation, so that the split is fixed
  by the seed and by the samples in their order. In particular, for three class folders
  of ten videos each, every video opening with as many frames as it reports, at least
  96 of them, in three channels, with 16 frames per sample, resolution 224 by 224 and
  test fraction 0.05, whose float product with 30 is 1.5: \<open>X_train\<close> has shape
  \<open>(28, 16, 224, 224, 3)\<close> and \<open>X_test\<close> has shape \<open>(2, 16, 224, 224, 3)\<close>, with three
  classes. Videos of fewer frames give samples of fewer than 16 frames.
\<close>

theorem split_sizes_and_shapes:
  assumes perm: "\<forall>n. distinct (rng_permutation lib 42 n) \<and>
                     set (rng_permutation lib 42 n) = {0..<n}"
    and frac: "0 < test_split h" "test_split h < 1"
  shows
    "(\<forall>X y videos classes.
        prepare_training_data h fs (videos_path h) = Inr (X, y, videos, classes) \<and>
        nat \<lceil>float_product lib (test_split h) (length X)\<rceil> < length X \<longrightarrow>
        (\<exists>X_train X_test y_train y_test dsk'.
           get_training_data h fs lib dsk save_data_as None =
             Inr ((Features X_train, Features X_test, Labels y_train, Labels y_test,
                   Videos videos, Classes classes), dsk') \<and>
           length X_test = nat \<lceil>float_product lib (test_split h) (length X)\<rceil> \<and>
           length X_train = length X - length X_test \<and>
           length y_test = length X_test \<and> length y_train = length X_train \<and>
           X_test @ X_train = map (nth X) (rng_permutation lib 42 (length X)) \<and>
           y_test @ y_train = map (nth y) (rng_permutation lib 42 (length X)))) \<and>
     (n_frames h = 16 \<and> operating_resolution h = (224, 224) \<and>
      test_split h = double_0_05 \<and> float_product lib (test_split h) 30 = 3 / 2 \<and>
      (\<exists>es. entries fs (videos_path h) = Some es \<and> length es = 3 \<and> distinct (map fst es) \<and>
         (\<forall>folder \<in> set (map fst es).
            length (glob fs (pattern h folder)) = 10 \<and>
            (\<forall>f \<in> set (glob fs (pattern h folder)). usable (VideoCapture fs f)))) \<longrightarrow>
      (\<exists>X_train X_test y_train y_test videos classes dsk'.
         get_training_data h fs lib dsk save_data_as None =
           Inr ((Features X_train, Features X_test, Labels y_train, Labels y_test,
                 Videos videos, Classes classes), dsk') \<and>
         length X_train = 28 \<and> length X_test = 2 \<and>
         (\<forall>sample \<in> set (X_train @ X_test).
            length sample = 16 \<and>
            (\<forall>f \<in> set sample. rows f = 224 \<and> cols f = 224 \<and> chans f = 3)) \<and>
         length y_train = 28 \<and> length y_test = 2 \<and> length classes = 3))"
proof (intro conjI allI impI)
  fix X y videos classes
  assume a: "prepare_training_data h fs (videos_path h) = Inr (X, y, videos, classes) \<and>
        nat \<lceil>float_product lib (test_split h) (length X)\<rceil> < length X"
  have p: "distinct (rng_permutation lib 42 (length X)) \<and>
      set (rng_permutation lib 42 (length X)) = {0..<length X}"
    using perm by blast
  show "\<exists>X_train X_test y_train y_test dsk'.
           get_training_data h fs lib dsk save_data_as None =
             Inr ((Features X_train, Features X_test, Labels y_train, Labels y_test,
                   Videos videos, Classes classes), dsk') \<and>
           length X_test = nat \<lceil>float_product lib (test_split h) (length X)\<rceil> \<and>
           length X_train = length X - length X_test \<and>
           length y_test = length X_test \<and> length y_train = length X_train \<and>
           X_test @ X_train = map (nth X) (rng_permutation lib 42 (length X)) \<and>
           y_test @ y_train = map (nth y) (rng_permutation lib 42 (length X))"
    by (rule get_training_data_split [where lib = lib and dsk = dsk
          and save_data_as = save_data_as, OF p frac conjunct1 [OF a] conjunct2 [OF a]])
next
  assume b: "n_frames h = 16 \<and> operating_resolution h = (224, 224) \<and>
      test_split h = double_0_05 \<and> float_product lib (test_split h) 30 = 3 / 2 \<and>
      (\<exists>es. entries fs (videos_path h) = Some es \<and> length es = 3 \<and> distinct (map fst es) \<and>
         (\<forall>folder \<in> set (map fst es).
            length (glob fs (pattern h folder)) = 10 \<and>
            (\<forall>f \<in> set (glob fs (pattern h folder)). usable (VideoCapture fs f))))"
  then obtain es where n: "n_frames h = 16" and res: "operating_resolution h = (224, 224)"
    and fp: "float_product lib (test_split h) 30 = 3 / 2"
    and ent: "entries fs (videos_path h) = Some es" and three: "length es = 3"
    and dist: "distinct (map fst es)"
    and cnt: "\<forall>folder \<in> set (map fst es). length (glob fs (pattern h folder)) = 10"
    and ok: "\<forall>folder \<in> set (map fst es). \<forall>f \<in> set (glob fs (pattern h folder)).
               usable (VideoCapture fs f)"
    by blast
  from prepare_training_data_usable [OF n ent dist cnt ok] three
  obtain X y videos classes where
    prep: "prepare_training_data h fs (videos_path h) = Inr (X, y, videos, classes)"
    and lX: "length X = 30" and ws: "list_all (well_shaped h) X" and lc: "length classes = 3"
    by auto
  have nt: "nat \<lceil>float_product lib (test_split h) (length X)\<rceil> = 2"
    unfolding lX fp by simp
  then have ne: "nat \<lceil>float_product lib (test_split h) (length X)\<rceil> < length X"
    using lX by simp
  have p: "distinct (rng_permutation lib 42 (length X)) \<and>
      set (rng_permutation lib 42 (length X)) = {0..<length X}"
    using perm by blast
  from get_training_data_split [where lib = lib and dsk = dsk
      and save_data_as = save_data_as, OF p frac prep ne]
  obtain X_train X_test y_train y_test dsk' where
    g: "get_training_data h fs lib dsk save_data_as None =
          Inr ((Features X_train, Features X_test, Labels y_train, Labels y_test,
                Videos videos, Classes classes), dsk')"
    and l1: "length X_test = nat \<lceil>float_product lib (test_split h) (length X)\<rceil>"
    and l2: "length X_train = length X - length X_test"
    and l3: "length y_test = length X_test" and l4: "length y_train = length X_train"
    and both: "X_test @ X_train = map (nth X) (rng_permutation lib 42 (length X))"
    by blast
  have l: "length X_test = 2" "length X_train = 28" "length y_test = 2" "length y_train = 28"
    using l1 l2 l3 l4 nt lX by simp_all
  have pb: "\<forall>i \<in> set (rng_permutation lib 42 (length X)). i < length X"
    using permutation_facts(2) [OF p] .
  have "set (X_test @ X_train) \<subseteq> set X"
    unfolding both using pb by auto
  then have "\<forall>sample \<in> set (X_train @ X_test). well_shaped h sample"
    using ws by (auto simp: list_all_iff)
  then have shp: "\<forall>sample \<in> set (X_train @ X_test).
            length sample = 16 \<and>
            (\<forall>f \<in> set sample. rows f = 224 \<and> cols f = 224 \<and> chans f = 3)"
    using n res by (simp add: well_shaped_def list_all_iff)
  show "\<exists>X_train X_test y_train y_test videos classes dsk'.
         get_training_data h fs lib dsk save_data_as None =
           Inr ((Features X_train, Features X_test, Labels y_train, Labels y_test,
                 Videos videos, Classes classes), dsk') \<and>
         length X_train = 28 \<and> length X_test = 2 \<and>
         (\<forall>sample \<in> set (X_train @ X_test).
            length sample = 16 \<and>
            (\<forall>f \<in> set sample. rows f = 224 \<and> cols f = 224 \<and> chans f = 3)) \<and>
         length y_train = 28 \<and> length y_test = 2 \<and> length classes = 3"
    using g l shp lc by (intro exI conjI) assumption+
qed

theorem split_sizes_and_shapes_witness:
  "\<exists>X_train X_test y_train y_test videos classes dsk'.
     get_training_data default_handler (example_fs 10) example_lib Map.empty None None =
       Inr ((Features X_train, Features X_test, Labels y_train, Labels y_test,
             Videos videos, Classes classes), dsk') \<and>
     length X_train = 28 \<and> length X_test = 2 \<and>
     list_all (\<lambda>sample. length sample = 16 \<and>
       list_all (\<lambda>f. rows f = 224 \<and> cols f = 224 \<and> chans f = 3) sample) (X_train @ X_test) \<and>
     length y_train = 28 \<and> length y_test = 2 \<and> length classes = 3"
proof -
  let ?es = "[(''walking'', Directory), (''boxing'', Directory), (''running'', Directory)]"
  have perm: "\<forall>n. distinct (rng_permutation example_lib 42 n) \<and>
      set (rng_permutation example_lib 42 n) = {0..<n}"
    by (simp add: example_lib_simps)
  have frac: "0 < test_split default_handler" "test_split default_handler < 1"
    by (simp_all add: default_handler_simps double_0_05_range)
  have files: "\<forall>folder \<in> set (map fst ?es).
      length (glob (example_fs 10) (pattern default_handler folder)) = 10 \<and>
      (\<forall>f \<in> set (glob (example_fs 10) (pattern default_handler folder)).
         usable (VideoCapture (example_fs 10) f))"
    by (simp add: example_fs_simps usable_clip numbered_def)
  have scene: "n_frames default_handler = 16 \<and>
      operating_resolution default_handler = (224, 224) \<and>
      test_split default_handler = double_0_05 \<and>
      float_product example_lib (test_split default_handler) 30 = 3 / 2 \<and>
      (\<exists>es. entries (example_fs 10) (videos_path default_handler) = Some es \<and>
         length es = 3 \<and> distinct (map fst es) \<and>
         (\<forall>folder \<in> set (map fst es).
            length (glob (example_fs 10) (pattern default_handler folder)) = 10 \<and>
            (\<forall>f \<in> set (glob (example_fs 10) (pattern default_handler folder)).
               usable (VideoCapture (example_fs 10) f))))"
    using files
    by (intro conjI exI [of _ ?es])
      (simp_all add: default_handler_simps example_fs_simps example_lib_simps)
  from split_sizes_and_shapes [where lib = example_lib
      and h = default_handler and fs = "example_fs 10" and dsk = Map.empty
      and save_data_as = None, OF perm frac] scene
  show ?thesis
    unfolding list_all_iff by blast
qed

theorem split_short_clips_counterexample:
  "map_sum id
     (\<lambda>((X_train, X_test, y_train, y_test, videos, classes), dsk').
        (py_len X_train, py_len X_test,
         remdups (sample_lengths X_train @ sample_lengths X_test), py_len classes))
     (get_training_data default_handler short_fs example_lib Map.empty None None)
   = Inr (28, 2, [4], 3)"
  by code_simp

section \<open>Properties of the snapshot\<close>

lemma get_training_data_load:
  "get_training_data h fs lib
     (dsk(path \<mapsto> six_fields X_train X_test ytr yte videos classes))
     save_data_as (Some path) =
   Inr ((X_train, X_test, ytr, yte, videos, classes),
        dsk(path \<mapsto> six_fields X_train X_test ytr yte videos classes))"
  by (simp add: get_training_data_def pkl_load_def snapshot_getitem_def six_fields_def)

lemma get_training_data_missing:
  "get_training_data h fs lib (dsk(path := None)) save_data_as (Some path) =
   Inl FileNotFoundError"
  by (simp add: get_training_data_def pkl_load_def)

lemma get_training_data_dump:
  assumes "get_training_data h fs lib dsk save_data_as None =
     Inr ((X_train, X_test, ytr, yte, videos, classes), dsk')"
  shows "dsk' = dsk(snapshot_name save_data_as \<mapsto>
                  six_fields X_train X_test ytr yte videos classes)"
  using assms
  by (auto simp: get_training_data_def pkl_dump_def six_fields_def
      split: sum.splits prod.splits)

text \<open>
  C9. When \<open>get_training_data\<close> with no pickle to load returns the six fields, the disk
  it leaves is the one it found with, at the name of the snapshot, the dictionary that
  holds those six fields under their names. Reading that file back, with any handler,
  file system, library and save name, returns the same \<open>X_train\<close>, \<open>X_test\<close>,
  \<open>y_train\<close>, \<open>y_test\<close>, \<open>videos\<close> and \<open>classes\<close> and leaves the disk as it is. What
  is read is what the file holds: with the file removed the read fails, and with other
  fields stored at that name the read returns those.
\<close>

theorem snapshot_round_trip:
  assumes "get_training_data h fs lib dsk save_data_as None =
     Inr ((X_train, X_test, ytr, yte, videos, classes), dsk')"
  shows "dsk' = dsk(snapshot_name save_data_as \<mapsto>
                  six_fields X_train X_test ytr yte videos classes) \<and>
    get_training_data h' fs' lib' dsk' save_data_as' (Some (snapshot_name save_data_as)) =
      Inr ((X_train, X_test, ytr, yte, videos, classes), dsk') \<and>
    get_training_data h' fs' lib' (dsk'(snapshot_name save_data_as := None)) save_data_as'
        (Some (snapshot_name save_data_as)) = Inl FileNotFoundError \<and>
    get_training_data h' fs' lib'
        (dsk'(snapshot_name save_data_as \<mapsto> six_fields a b c d e f)) save_data_as'
        (Some (snapshot_name save_data_as)) =
      Inr ((a, b, c, d, e, f), dsk'(snapshot_name save_data_as \<mapsto> six_fields a b c d e f))"
proof -
  note w = get_training_data_dump [OF assms]
  have "get_training_data h' fs' lib' dsk' save_data_as' (Some (snapshot_name save_data_as)) =
      Inr ((X_train, X_test, ytr, yte, videos, classes), dsk')"
    unfolding w by (rule get_training_data_load)
  then show ?thesis
    using w get_training_data_load get_training_data_missing by blast
qed

theorem snapshot_round_trip_witness:
  "\<exists>X_train X_test videos dsk'.
     get_training_data default_handler (example_fs 1) example_lib Map.empty None None =
       Inr ((X_train, X_test, Labels [1, 2], Labels [0], videos,
             Classes [(''boxing'', 0), (''running'', 1), (''walking'', 2)]), dsk') \<and>
     dsk' ''data.pkl'' =
       Some (six_fields X_train X_test (Labels [1, 2]) (Labels [0]) videos
               (Classes [(''boxing'', 0), (''running'', 1), (''walking'', 2)])) \<and>
     get_training_data (DataHandler_init ''/content/drive/My Drive/data/KTH_data/'' (1 / 100))
         cluttered_fs example_lib dsk' (Some ''unused'') (Some ''data.pkl'') =
       Inr ((X_train, X_test, Labels [1, 2], Labels [0], videos,
             Classes [(''boxing'', 0), (''running'', 1), (''walking'', 2)]), dsk')"
proof -
  have ev: "map_sum id (\<lambda>((X_train, X_test, y_train, y_test, videos, classes), d).
        (y_train, y_test, classes))
      (get_training_data default_handler (example_fs 1) example_lib Map.empty None None)
      = Inr (Labels [1, 2], Labels [0],
             Classes [(''boxing'', 0), (''running'', 1), (''walking'', 2)])"
    by code_simp
  then obtain X_train X_test videos dsk' where
    w: "get_training_data default_handler (example_fs 1) example_lib Map.empty None None =
       Inr ((X_train, X_test, Labels [1, 2], Labels [0], videos,
             Classes [(''boxing'', 0), (''running'', 1), (''walking'', 2)]), dsk')"
    by (cases "get_training_data default_handler (example_fs 1) example_lib
          Map.empty None None") auto
  have name: "snapshot_name None = ''data.pkl''"
    by code_simp
  from snapshot_round_trip [OF w, of
      "DataHandler_init ''/content/drive/My Drive/data/KTH_data/'' (1 / 100)"
      cluttered_fs example_lib "Some ''unused''"]
  have "dsk' = Map.empty(''data.pkl'' \<mapsto>
          six_fields X_train X_test (Labels [1, 2]) (Labels [0]) videos
            (Classes [(''boxing'', 0), (''running'', 1), (''walking'', 2)]))"
    and "get_training_data
         (DataHandler_init ''/content/drive/My Drive/data/KTH_data/'' (1 / 100))
         cluttered_fs example_lib dsk' (Some ''unused'') (Some ''data.pkl'') =
       Inr ((X_train, X_test, Labels [1, 2], Labels [0], videos,
             Classes [(''boxing'', 0), (''running'', 1), (''walking'', 2)]), dsk')"
    unfolding name by blast+
  then show ?thesis
    using w by (intro exI [of _ X_train] exI [of _ X_test] exI [of _ videos] exI [of _ dsk'])
      simp
qed

section \<open>Properties of the training driver\<close>

text \<open>
  C6. The fresh network that \<open>train\<close> builds when no pretrained model is named has
  three output classes whatever the dataset: line 144 passes the constant 3, not
  \<open>self.n_classes\<close>, which \<open>__init__\<close> computes on line 131 and nothing reads. On the
  snapshot of the six KTH classes the trainer counts 6 classes and builds a network of 3.
\<close>

theorem train_model_ignores_class_count:
  "map_sum id (\<lambda>(t, _). (n_classes t, nb_classes (train_model load_model t None)))
     (Trainer_init ''2020-03-01 10:15:30.123456'' fs lib [kth_pickle \<mapsto> kth_snapshot] {}
        (Some kth_pickle) (224, 224))
   = Inr (6, 3)"
  by (simp add: Trainer_init_def get_training_data_def pkl_load_def snapshot_getitem_def
      kth_snapshot_def kth_pickle_def py_len_def train_model_def c3d_model_def Let_def)

lemma train_model_fresh: "nb_classes (train_model load_model t None) = 3"
  by (simp add: train_model_def c3d_model_def)

lemma fit_loop_unmonitored:
  "monitor cb = ''val_accuracy'' \<Longrightarrow> fit_loop cb [] best epoch rs = []"
  by (induction rs arbitrary: best epoch) (simp_all add: epoch_logs_def)

text \<open>
  C1. \<open>train\<close> writes no checkpoint at all, whatever the epochs: the callback monitors
  \<open>val_accuracy\<close>, and the model is compiled without the accuracy metric, so no epoch's
  logs hold that value and the callback skips every epoch. Not even the first epoch,
  whose validation accuracy exceeds that of every earlier epoch since there is none,
  leaves a file.
\<close>

theorem train_writes_no_checkpoint: "train t model_path outcome = []"
  by (simp add: train_def Let_def fit_loop_unmonitored)

text \<open>
  The callback itself does what is asked of it. Had the model been compiled with the
  accuracy metric, the checkpoints written would be those of the epochs whose validation
  accuracy is greater than the best so far and than that of every earlier epoch.
\<close>

lemma fit_loop_best_only:
  assumes m: "monitor cb = ''val_accuracy''"
  shows "fit_loop cb [''accuracy''] best e rs =
     map (\<lambda>i. (filepath cb, e + i + 1, val_accuracy (rs ! i)))
       (filter (\<lambda>i. monitor_op (val_accuracy (rs ! i)) best \<and>
                     (\<forall>j<i. val_accuracy (rs ! j) < val_accuracy (rs ! i)))
          [0..<length rs])"
proof (induction rs arbitrary: best e)
  case Nil
  then show ?case by simp
next
  case (Cons r rs)
  have upt: "[0..<Suc (length rs)] = 0 # map Suc [0..<length rs]"
    by (simp add: upt_conv_Cons map_Suc_upt del: upt_Suc)
  have logs: "epoch_logs [''accuracy''] r (monitor cb) = Some (val_accuracy r)"
    using m by (simp add: epoch_logs_def)
  have all_Suc: "\<And>i P. (\<forall>j<Suc i. P j) = (P 0 \<and> (\<forall>j<i. P (Suc j)))"
    by (auto simp: less_Suc_eq_0_disj)
  show ?case
  proof (cases "monitor_op (val_accuracy r) best")
    case True
    have c: "\<And>v. (monitor_op v (Some (val_accuracy r))) = (monitor_op v best \<and> val_accuracy r < v)"
      using True by (auto simp: monitor_op_def split: option.splits)
    show ?thesis
      using True logs
      by (simp add: Cons.IH upt filter_map comp_def all_Suc c conj_ac del: upt_Suc)
  next
    case False
    have c: "\<And>v. monitor_op v best = (monitor_op v best \<and> val_accuracy r < v)"
      using False by (auto simp: monitor_op_def split: option.splits)
    show ?thesis
      using False logs
      apply (simp add: Cons.IH upt filter_map comp_def all_Suc del: upt_Suc)
      apply (subst c)
      apply (simp add: conj_ac)
      done
  qed
qed

section \<open>Properties of the retrieval evaluation\<close>

lemma np_squeeze_cases:
  "np_squeeze xs = (if length xs = 1 then Array0 (hd xs) else Array1 xs)"
  by (cases xs; cases "tl xs") (auto simp: np_squeeze_def)

lemma retrieved_bound: "i \<in> set (retrieved ts row) \<Longrightarrow> i < length row"
  by (auto simp: retrieved_def np_argwhere_def)

lemma retrieved_iff:
  "i \<in> set (retrieved ts row) \<longleftrightarrow> i < length row \<and> distance_threshold ts < row ! i"
  by (auto simp: retrieved_def np_argwhere_def)

lemma matches_replicate:
  "length (filter (\<lambda>(t, p). t = p) (zip (replicate (length ps) own) ps)) =
   length (filter (\<lambda>p. p = own) ps)"
proof (induction ps)
  case Nil
  then show ?case by simp
next
  case (Cons p ps)
  then show ?case by auto
qed

lemma query_accuracy_cases:
  assumes idx: "idx < length (y_train ts)" and len: "length row = length (y_train ts)"
  shows "query_accuracy on_empty ts idx row =
    (if length (retrieved ts row) = 0 then on_empty
     else if length (retrieved ts row) = 1 then Inl TypeError
     else Inr (Float (real (length (same_label ts idx row)) / real (length (retrieved ts row)))))"
proof -
  let ?R = "retrieved ts row" and ?y = "y_train ts"
  have inb: "list_all (\<lambda>j. j < length ?y) ?R"
    using retrieved_bound [of _ ts row] len by (auto simp: list_all_iff)
  consider (zero) "?R = []" | (one) "length ?R = 1" | (many) "2 \<le> length ?R"
    by (cases ?R) (auto simp: Suc_le_eq)
  then show ?thesis
  proof cases
    case zero
    then show ?thesis
      using idx by (simp add: query_accuracy_def np_squeeze_cases np_getitem_def getitem_def
          np_len_def accuracy_score_def)
  next
    case one
    then obtain i where R: "?R = [i]"
      by (cases ?R) auto
    then have "i < length ?y" using inb by simp
    then show ?thesis
      using idx R by (simp add: query_accuracy_def np_squeeze_def np_getitem_def getitem_def
          np_len_def)
  next
    case many
    then have ne: "length ?R \<noteq> 1" "?R \<noteq> []" "length ?R \<noteq> 0" by auto
    have m: "length (filter (\<lambda>(t, p). t = p) (zip (replicate (length ?R) (?y ! idx)) (map (nth ?y) ?R)))
        = length (same_label ts idx row)"
      using matches_replicate [of "map (nth ?y) ?R" "?y ! idx"]
      by (simp add: same_label_def filter_map comp_def)
    show ?thesis
      using idx inb ne m
      by (simp add: query_accuracy_def np_squeeze_cases np_getitem_def getitem_def
          np_len_def accuracy_score_def)
  qed
qed








text \<open>
  C5. A query whose similarity with itself, as the matrix has it, exceeds the threshold
  is among the examples it retrieves, so that set is not empty; and whenever the loop
  computes an accuracy for the query, that accuracy is at least one over the number of
  retrieved examples. The similarity of a feature vector with itself is not always
  above the threshold: for the zero vector it is 0, and such a query retrieves nothing.
\<close>

theorem query_retrieves_itself:
  assumes idx: "idx < length (y_train ts)" and len: "length row = length (y_train ts)"
    and self: "distance_threshold ts < row ! idx"
  shows "idx \<in> set (retrieved ts row) \<and> retrieved ts row \<noteq> [] \<and>
    (\<forall>a. query_accuracy on_empty ts idx row = Inr (Float a) \<longrightarrow>
       1 / real (length (retrieved ts row)) \<le> a)"
proof -
  have mem: "idx \<in> set (retrieved ts row)"
    using idx len self by (simp add: retrieved_iff)
  then have ne: "retrieved ts row \<noteq> []" by auto
  have own: "idx \<in> set (same_label ts idx row)"
    using mem by (simp add: same_label_def)
  then have "same_label ts idx row \<noteq> []" by auto
  then have one: "1 \<le> real (length (same_label ts idx row))"
    by (cases "same_label ts idx row") auto
  have "1 / real (length (retrieved ts row)) \<le> a"
    if "query_accuracy on_empty ts idx row = Inr (Float a)" for a
  proof -
    from that ne have "a = real (length (same_label ts idx row)) / real (length (retrieved ts row))"
      by (auto simp: query_accuracy_cases [OF idx len] split: if_splits)
    then show ?thesis
      using one by (simp add: divide_right_mono)
  qed
  then show ?thesis using mem ne by blast
qed

theorem query_retrieves_itself_witness:
  "0 < length (y_train example_tester) \<and>
   length (example_distances ! 0) = length (y_train example_tester) \<and>
   distance_threshold example_tester < example_distances ! 0 ! 0 \<and>
   0 \<in> set (retrieved example_tester (example_distances ! 0)) \<and>
   query_accuracy (Inl ValueError) example_tester 0 (example_distances ! 0) =
     Inr (Float (1 / 2)) \<and>
   1 / real (length (retrieved example_tester (example_distances ! 0))) \<le> 1 / 2"
proof -
  have idx: "0 < length (y_train example_tester)"
    by (simp add: example_tester_def)
  have len: "length (example_distances ! 0) = length (y_train example_tester)"
    by (simp add: example_distances_def example_tester_def)
  have self: "distance_threshold example_tester < example_distances ! 0 ! 0"
    by (simp add: example_distances_def example_tester_def)
  have ev: "query_accuracy (Inl ValueError) example_tester 0 (example_distances ! 0) =
      Inr (Float (1 / 2))"
    by code_simp
  from query_retrieves_itself [OF idx len self, of "Inl ValueError"] ev
  have "0 \<in> set (retrieved example_tester (example_distances ! 0))"
    and "1 / real (length (retrieved example_tester (example_distances ! 0))) \<le> 1 / 2"
    by blast+
  then show ?thesis
    using idx len self ev by simp
qed

theorem query_zero_vector_counterexample:
  "zero_distances ! 0 ! 0 = 0 \<and>
   distance_threshold zero_tester = 9 / 10 \<and>
   retrieved zero_tester (zero_distances ! 0) = []"
  by code_simp

end
